theory Spec2Isabelle
  imports Complex_Main
begin

section \<open>The C++ type double\<close>

text \<open>
  The reactor model computes on C++ doubles. A double is modelled as an exact real
  number or one of the three special values of IEEE-754: the two infinities and
  not-a-number. The operators below follow the IEEE rules for the special values
  (a division of zero by zero is NaN, NaN is absorbing, every comparison with NaN is
  false). Finite results are exact: rounding, overflow of finite operands to an infinity
  and the sign of zero (a zero divisor counts as +0) are outside this model. So sums and
  products of finite values are associative here, which those of the program are not:
  the statements below keep every sum and product in the order the source computes it.
\<close>

datatype double = Fin real | PInf | NInf | NaN

instantiation double :: "{zero, plus, minus, times, inverse, abs, ord}"
begin

definition zero_double :: double where
  "zero_double = Fin 0"

fun plus_double :: "double \<Rightarrow> double \<Rightarrow> double" where
  "plus_double (Fin a) (Fin b) = Fin (a + b)"
| "plus_double (Fin a) PInf = PInf"
| "plus_double (Fin a) NInf = NInf"
| "plus_double PInf (Fin b) = PInf"
| "plus_double PInf PInf = PInf"
| "plus_double PInf NInf = NaN"
| "plus_double NInf (Fin b) = NInf"
| "plus_double NInf PInf = NaN"
| "plus_double NInf NInf = NInf"
| "plus_double NaN b = NaN"
| "plus_double a NaN = NaN"

fun minus_double :: "double \<Rightarrow> double \<Rightarrow> double" where
  "minus_double (Fin a) (Fin b) = Fin (a - b)"
| "minus_double (Fin a) PInf = NInf"
| "minus_double (Fin a) NInf = PInf"
| "minus_double PInf (Fin b) = PInf"
| "minus_double PInf PInf = NaN"
| "minus_double PInf NInf = PInf"
| "minus_double NInf (Fin b) = NInf"
| "minus_double NInf PInf = NInf"
| "minus_double NInf NInf = NaN"
| "minus_double NaN b = NaN"
| "minus_double a NaN = NaN"

fun times_double :: "double \<Rightarrow> double \<Rightarrow> double" where
  "times_double (Fin a) (Fin b) = Fin (a * b)"
| "times_double (Fin a) PInf = (if a = 0 then NaN else if 0 < a then PInf else NInf)"
| "times_double (Fin a) NInf = (if a = 0 then NaN else if 0 < a then NInf else PInf)"
| "times_double PInf (Fin b) = (if b = 0 then NaN else if 0 < b then PInf else NInf)"
| "times_double PInf PInf = PInf"
| "times_double PInf NInf = NInf"
| "times_double NInf (Fin b) = (if b = 0 then NaN else if 0 < b then NInf else PInf)"
| "times_double NInf PInf = NInf"
| "times_double NInf NInf = PInf"
| "times_double NaN b = NaN"
| "times_double a NaN = NaN"

fun divide_double :: "double \<Rightarrow> double \<Rightarrow> double" where
  "divide_double (Fin a) (Fin b) =
     (if b \<noteq> 0 then Fin (a / b)
      else if a = 0 then NaN else if 0 < a then PInf else NInf)"
| "divide_double (Fin a) PInf = Fin 0"
| "divide_double (Fin a) NInf = Fin 0"
| "divide_double PInf (Fin b) = (if 0 \<le> b then PInf else NInf)"
| "divide_double PInf PInf = NaN"
| "divide_double PInf NInf = NaN"
| "divide_double NInf (Fin b) = (if 0 \<le> b then NInf else PInf)"
| "divide_double NInf PInf = NaN"
| "divide_double NInf NInf = NaN"
| "divide_double NaN b = NaN"
| "divide_double a NaN = NaN"

definition inverse_double :: "double \<Rightarrow> double" where
  "inverse_double a = divide (Fin 1) a"

fun abs_double :: "double \<Rightarrow> double" where
  "abs_double (Fin a) = Fin \<bar>a\<bar>"
| "abs_double PInf = PInf"
| "abs_double NInf = PInf"
| "abs_double NaN = NaN"

fun less_double :: "double \<Rightarrow> double \<Rightarrow> bool" where
  "less_double (Fin a) (Fin b) = (a < b)"
| "less_double (Fin a) PInf = True"
| "less_double NInf (Fin b) = True"
| "less_double NInf PInf = True"
| "less_double a b = False"

definition less_eq_double_def:
  "a \<le> b \<longleftrightarrow> a < b \<or> (a = b \<and> a \<noteq> NaN)" for a b :: double

instance ..

end

text \<open>\<^verbatim>\<open>std::max(a, b)\<close> of the C++ library: \<^verbatim>\<open>(a < b) ? b : a\<close>.\<close>

definition std_max :: "double \<Rightarrow> double \<Rightarrow> double" where
  "std_max a b = (if a < b then b else a)"

text \<open>
  \<^verbatim>\<open>c.sum()\<close> of an Eigen vector: zero for the empty vector, otherwise the
  coefficients added up from the first one.
\<close>

fun eigen_sum :: "double list \<Rightarrow> double" where
  "eigen_sum [] = 0"
| "eigen_sum (v # vs) = foldl (+) v vs"

section \<open>The OpenSMOKE++ maps\<close>

text \<open>
  Modelled from the spec: the classes \<^verbatim>\<open>OpenSMOKE::ThermodynamicsMap_CHEMKIN\<close> and
  \<^verbatim>\<open>OpenSMOKE::KineticsMap_CHEMKIN\<close> and the constant
  \<^verbatim>\<open>PhysicalConstants::R_J_kmol\<close> belong to the OpenSMOKE++ library, which is not
  part of the repository. The specification lists their interface (External Interfaces,
  consumed services): queries that answer from their arguments and from the temperature
  and pressure last set, and setters that store a temperature or a pressure. What the
  queries answer is a parameter of the model, the record \<open>openSMOKE\<close>: the number of
  species, the molecular weight of a mixture, the temperature at which a mixture has a
  given enthalpy (from a first guess), the formation rate of species \<open>i\<close> and its
  derivative with respect to the concentration of species \<open>j\<close>, both at the
  temperatures and pressures last set on the two maps, and the gas constant. The theorems
  hold for every value of this record.
\<close>

record openSMOKE =
  NumberOfSpecies :: nat
  MolecularWeight :: "double list \<Rightarrow> double"
  TemperatureFromEnthalpy :: "double \<Rightarrow> double \<Rightarrow> double list \<Rightarrow> double \<Rightarrow> double"
  FormationRate :: "double \<times> double \<Rightarrow> double \<times> double \<Rightarrow> double list \<Rightarrow> nat \<Rightarrow> double"
  FormationRateDerivative ::
    "double \<times> double \<Rightarrow> double \<times> double \<Rightarrow> double list \<Rightarrow> nat \<Rightarrow> nat \<Rightarrow> double"
  R_J_kmol :: double

text \<open>
  The calls that reach the two maps, in the order they are made. \<open>cTot\<close>, \<open>mw\<close> and
  the other locals of a call are not visible from outside; the arguments of these calls
  are.
\<close>

datatype call =
    Thermo_MolecularWeight "double list"
  | Thermo_GetTemperature double double "double list" double
  | Thermo_SetTemperature double
  | Thermo_SetPressure double
  | Kinetics_SetTemperature double
  | Kinetics_SetPressure double
  | Kinetics_ReactionRates "double list"
  | Kinetics_FormationRates
  | Kinetics_DerivativesOfFormationRates "double list"

fun is_kinetics :: "call \<Rightarrow> bool" where
  "is_kinetics (Kinetics_SetTemperature T) = True"
| "is_kinetics (Kinetics_SetPressure P) = True"
| "is_kinetics (Kinetics_ReactionRates c) = True"
| "is_kinetics Kinetics_FormationRates = True"
| "is_kinetics (Kinetics_DerivativesOfFormationRates c) = True"
| "is_kinetics other = False"

fun is_GetTemperature :: "call \<Rightarrow> bool" where
  "is_GetTemperature (Thermo_GetTemperature H P x T) = True"
| "is_GetTemperature other = False"

text \<open>
  Modelled from the spec: the mutable state of the two maps, which \<open>derivatives\<close> and
  \<open>jacobian\<close> reach through the references \<^verbatim>\<open>thermoMap_\<close> and
  \<^verbatim>\<open>kineticsMap_\<close>, and the member functions the file calls on them. The state is
  the temperature and pressure last set on each map, the formation rates of the last
  \<^verbatim>\<open>ReactionRates\<close>, and the calls received so far. A setter stores its argument;
  \<^verbatim>\<open>ReactionRates\<close> computes the formation rates at the state set and
  \<^verbatim>\<open>FormationRates\<close> hands them out; the other queries answer and change nothing.
\<close>

record maps =
  thermo_T :: double
  thermo_P :: double
  kinetics_T :: double
  kinetics_P :: double
  kinetics_R :: "double list"
  calls :: "call list"

definition thermoMap_MolecularWeight_From_MoleFractions ::
    "openSMOKE \<Rightarrow> double list \<Rightarrow> maps \<Rightarrow> double \<times> maps" where
  "thermoMap_MolecularWeight_From_MoleFractions os x w =
     (MolecularWeight os x, w\<lparr>calls := calls w @ [Thermo_MolecularWeight x]\<rparr>)"

definition thermoMap_GetTemperatureFromEnthalpyAndMoleFractions ::
    "openSMOKE \<Rightarrow> double \<Rightarrow> double \<Rightarrow> double list \<Rightarrow> double \<Rightarrow> maps \<Rightarrow> double \<times> maps" where
  "thermoMap_GetTemperatureFromEnthalpyAndMoleFractions os H P x TFirstGuess w =
     (TemperatureFromEnthalpy os H P x TFirstGuess,
      w\<lparr>calls := calls w @ [Thermo_GetTemperature H P x TFirstGuess]\<rparr>)"

definition thermoMap_SetTemperature :: "double \<Rightarrow> maps \<Rightarrow> maps" where
  "thermoMap_SetTemperature T w =
     w\<lparr>thermo_T := T, calls := calls w @ [Thermo_SetTemperature T]\<rparr>"

definition thermoMap_SetPressure :: "double \<Rightarrow> maps \<Rightarrow> maps" where
  "thermoMap_SetPressure P w =
     w\<lparr>thermo_P := P, calls := calls w @ [Thermo_SetPressure P]\<rparr>"

definition kineticsMap_SetTemperature :: "double \<Rightarrow> maps \<Rightarrow> maps" where
  "kineticsMap_SetTemperature T w =
     w\<lparr>kinetics_T := T, calls := calls w @ [Kinetics_SetTemperature T]\<rparr>"

definition kineticsMap_SetPressure :: "double \<Rightarrow> maps \<Rightarrow> maps" where
  "kineticsMap_SetPressure P w =
     w\<lparr>kinetics_P := P, calls := calls w @ [Kinetics_SetPressure P]\<rparr>"

definition kineticsMap_ReactionRates :: "openSMOKE \<Rightarrow> double list \<Rightarrow> maps \<Rightarrow> maps" where
  "kineticsMap_ReactionRates os c w =
     w\<lparr>kinetics_R :=
         map (FormationRate os (thermo_T w, thermo_P w) (kinetics_T w, kinetics_P w) c)
           [0..<NumberOfSpecies os],
       calls := calls w @ [Kinetics_ReactionRates c]\<rparr>"

definition kineticsMap_FormationRates :: "maps \<Rightarrow> double list \<times> maps" where
  "kineticsMap_FormationRates w =
     (kinetics_R w, w\<lparr>calls := calls w @ [Kinetics_FormationRates]\<rparr>)"

definition kineticsMap_DerivativesOfFormationRates ::
    "openSMOKE \<Rightarrow> double list \<Rightarrow> maps \<Rightarrow> double list list \<times> maps" where
  "kineticsMap_DerivativesOfFormationRates os c w =
     (map (\<lambda>i. map (FormationRateDerivative os (thermo_T w, thermo_P w)
                        (kinetics_T w, kinetics_P w) c i) [0..<NumberOfSpecies os])
        [0..<NumberOfSpecies os],
      w\<lparr>calls := calls w @ [Kinetics_DerivativesOfFormationRates c]\<rparr>)"

section \<open>The class batchAdiabaticOdeSystem\<close>

text \<open>
  The private members \<^verbatim>\<open>TInitial_\<close>, \<^verbatim>\<open>PInitial_\<close>, \<^verbatim>\<open>U_\<close> and
  \<^verbatim>\<open>maxIterations_\<close> (an identifier cannot end in an underscore here). The two
  references to the maps are the state \<open>maps\<close> and the parameter \<open>openSMOKE\<close>.
\<close>

record batchAdiabaticOdeSystem =
  sys_TInitial :: double
  sys_PInitial :: double
  sys_U :: double
  sys_maxIterations :: int

text \<open>
  The constructor sets \<^verbatim>\<open>maxIterations_\<close> only; the three doubles keep whatever the
  memory of the object held, here the argument \<open>mem\<close>.
\<close>

definition batchAdiabaticOdeSystem_new :: "double \<times> double \<times> double \<Rightarrow> batchAdiabaticOdeSystem" where
  "batchAdiabaticOdeSystem_new mem =
     \<lparr>sys_TInitial = fst mem, sys_PInitial = fst (snd mem), sys_U = snd (snd mem), sys_maxIterations = 10\<rparr>"

definition setInitialTemperature :: "double \<Rightarrow> batchAdiabaticOdeSystem \<Rightarrow> batchAdiabaticOdeSystem" where
  "setInitialTemperature TInitial sys = sys\<lparr>sys_TInitial := TInitial\<rparr>"

definition setInitialPressure :: "double \<Rightarrow> batchAdiabaticOdeSystem \<Rightarrow> batchAdiabaticOdeSystem" where
  "setInitialPressure PInitial sys = sys\<lparr>sys_PInitial := PInitial\<rparr>"

definition setInternalEnergy :: "double \<Rightarrow> batchAdiabaticOdeSystem \<Rightarrow> batchAdiabaticOdeSystem" where
  "setInternalEnergy U sys = sys\<lparr>sys_U := U\<rparr>"

definition nEqns :: "openSMOKE \<Rightarrow> nat" where
  "nEqns os = NumberOfSpecies os"

text \<open>
  An index outside an OpenFOAM field is undefined behaviour in C++ (the field checks it
  in debug builds only, where it is a fatal error); the model fails with
  \<open>IndexOutOfRange\<close> there. \<open>DegenerateStateError\<close> is the error the specification
  names for a total concentration of zero; no statement of the source raises it.
\<close>

datatype failure = IndexOutOfRange | DegenerateStateError

subsection \<open>derivatives\<close>

text \<open>
  The loop of lines 97 to 104, on the number of iterations still allowed (the source
  counts \<open>i\<close> up to \<^verbatim>\<open>maxIterations_\<close>).
\<close>

fun derivatives_loop ::
    "openSMOKE \<Rightarrow> batchAdiabaticOdeSystem \<Rightarrow> double \<Rightarrow> double \<Rightarrow> double list \<Rightarrow> nat
      \<Rightarrow> double \<times> double \<times> maps \<Rightarrow> double \<times> double \<times> maps" where
  "derivatives_loop os sys cTot mw x 0 (T, P, w) = (T, P, w)"
| "derivatives_loop os sys cTot mw x (Suc n) (T, P, w) =
     (let Pold = P;
          H = sys_U sys + P / (cTot * mw);
          (T', w') = thermoMap_GetTemperatureFromEnthalpyAndMoleFractions os (H * mw) P x T w;
          P' = cTot * (R_J_kmol os * T')
      in if \<bar>P' - Pold\<bar> / P' < Fin 0.0001 then (T', P', w')
         else derivatives_loop os sys cTot mw x n (T', P', w'))"

definition derivatives ::
    "openSMOKE \<Rightarrow> batchAdiabaticOdeSystem \<Rightarrow> double \<Rightarrow> double list \<Rightarrow> double list \<Rightarrow> maps
      \<Rightarrow> failure + double list \<times> maps" where
  "derivatives os sys t cc dcdt w =
     (if length cc < NumberOfSpecies os then Inl IndexOutOfRange
      else
        let c = map (\<lambda>i. std_max (cc ! i) 0) [0..<NumberOfSpecies os];
            cTot = eigen_sum c;
            x = map (\<lambda>i. c ! i / cTot) [0..<NumberOfSpecies os];
            (mw, w1) = thermoMap_MolecularWeight_From_MoleFractions os x w;
            (T, P, w2) = derivatives_loop os sys cTot mw x (nat (sys_maxIterations sys))
                           (sys_TInitial sys, sys_PInitial sys, w1);
            w3 = thermoMap_SetTemperature T w2;
            w4 = thermoMap_SetPressure P w3;
            w5 = kineticsMap_SetTemperature T w4;
            w6 = kineticsMap_SetPressure P w5;
            w7 = kineticsMap_ReactionRates os c w6;
            (R, w8) = kineticsMap_FormationRates w7
        in if length dcdt < NumberOfSpecies os then Inl IndexOutOfRange
           else Inr (fold (\<lambda>i d. d[i := R ! i]) [0..<NumberOfSpecies os] dcdt, w8))"

subsection \<open>jacobian\<close>

text \<open>The loop of lines 137 to 144.\<close>

fun jacobian_loop ::
    "openSMOKE \<Rightarrow> batchAdiabaticOdeSystem \<Rightarrow> double \<Rightarrow> double \<Rightarrow> double list \<Rightarrow> nat
      \<Rightarrow> double \<times> double \<times> maps \<Rightarrow> double \<times> double \<times> maps" where
  "jacobian_loop os sys cTot mw x 0 (T, P, w) = (T, P, w)"
| "jacobian_loop os sys cTot mw x (Suc n) (T, P, w) =
     (let Pold = P;
          H = sys_U sys + P / (cTot * mw);
          (T', w') = thermoMap_GetTemperatureFromEnthalpyAndMoleFractions os (H * mw) P x T w;
          P' = cTot * (R_J_kmol os * T')
      in if \<bar>P' - Pold\<bar> / P' < Fin 0.0001 then (T', P', w')
         else jacobian_loop os sys cTot mw x n (T', P', w'))"

definition rows_ok :: "nat \<Rightarrow> double list list \<Rightarrow> bool" where
  "rows_ok N dfdc = (N \<le> length dfdc \<and> list_all (\<lambda>row. N \<le> length row) (take N dfdc))"

definition jacobian ::
    "openSMOKE \<Rightarrow> batchAdiabaticOdeSystem \<Rightarrow> double \<Rightarrow> double list \<Rightarrow> double list
      \<Rightarrow> double list list \<Rightarrow> maps \<Rightarrow> failure + (double list \<times> double list list) \<times> maps" where
  "jacobian os sys t cc dfdt dfdc w =
     (if length cc < NumberOfSpecies os then Inl IndexOutOfRange
      else
        let c = map (\<lambda>i. std_max (cc ! i) 0) [0..<NumberOfSpecies os];
            cTot = eigen_sum c;
            x = map (\<lambda>i. c ! i / cTot) [0..<NumberOfSpecies os];
            (mw, w1) = thermoMap_MolecularWeight_From_MoleFractions os x w;
            (T, P, w2) = jacobian_loop os sys cTot mw x (nat (sys_maxIterations sys))
                           (sys_TInitial sys, sys_PInitial sys, w1);
            w3 = thermoMap_SetTemperature T w2;
            w4 = thermoMap_SetPressure P w3;
            w5 = kineticsMap_SetTemperature T w4;
            w6 = kineticsMap_SetPressure P w5;
            (dR_over_dC, w7) = kineticsMap_DerivativesOfFormationRates os c w6
        in if length dfdt < NumberOfSpecies os \<or> \<not> rows_ok (NumberOfSpecies os) dfdc
           then Inl IndexOutOfRange
           else Inr ((fold (\<lambda>i d. d[i := 0]) [0..<NumberOfSpecies os] dfdt,
                      fold (\<lambda>i m. fold (\<lambda>j m. m[i := (m ! i)[j := dR_over_dC ! i ! j]])
                                    [0..<NumberOfSpecies os] m)
                        [0..<NumberOfSpecies os] dfdc),
                     w7))"

section \<open>The quantities of one call\<close>

text \<open>
  The locals of \<open>derivatives\<close> and \<open>jacobian\<close> as functions of the raw concentrations
  \<open>cc\<close>, named as the specification names them (State Reconstructor): the clipped
  concentrations \<^verbatim>\<open>c\<close>, their total \<^verbatim>\<open>cTot\<close>, the mole fractions \<^verbatim>\<open>x\<close> and the
  molecular weight \<^verbatim>\<open>mw\<close>.
\<close>

definition clipped :: "openSMOKE \<Rightarrow> double list \<Rightarrow> double list" where
  "clipped os cc = map (\<lambda>i. std_max (cc ! i) 0) [0..<NumberOfSpecies os]"

definition totalConcentration :: "openSMOKE \<Rightarrow> double list \<Rightarrow> double" where
  "totalConcentration os cc = eigen_sum (clipped os cc)"

definition moleFractions :: "openSMOKE \<Rightarrow> double list \<Rightarrow> double list" where
  "moleFractions os cc =
     map (\<lambda>i. clipped os cc ! i / totalConcentration os cc) [0..<NumberOfSpecies os]"

definition molecularWeight :: "openSMOKE \<Rightarrow> double list \<Rightarrow> double" where
  "molecularWeight os cc = MolecularWeight os (moleFractions os cc)"

text \<open>
  The closure as the specification words it (Thermodynamic Closure Solver, step 2), on
  at most \<open>n\<close> iterations from the pair \<open>(T, P)\<close>: (a) the target enthalpy
  \<open>H = U + P / (cTot \<times> mw)\<close>; (b) the temperature at which the mixture has that
  enthalpy, asked of the thermodynamic map with the previous temperature as first guess
  (the map works per kmol, so it is asked at \<open>H \<times> mw\<close>); (c) the pressure
  \<open>P = cTot \<times> R \<times> T\<close>, the product taken as the source takes it,
  \<open>cTot \<times> (R \<times> T)\<close>; (d) stop when \<open>|P - P_previous| / P < 1e-4\<close>. It returns the
  last pair and the queries made to the map.
\<close>

fun spec_closure ::
    "openSMOKE \<Rightarrow> double \<Rightarrow> double \<Rightarrow> double \<Rightarrow> double list \<Rightarrow> nat \<Rightarrow> double \<times> double
      \<Rightarrow> (double \<times> double) \<times> call list" where
  "spec_closure os U cTot mw x 0 (T, P) = ((T, P), [])"
| "spec_closure os U cTot mw x (Suc n) (T, P) =
     (let H = U + P / (cTot * mw);
          T' = TemperatureFromEnthalpy os (H * mw) P x T;
          P' = cTot * (R_J_kmol os * T');
          q = Thermo_GetTemperature (H * mw) P x T
      in if \<bar>P' - P\<bar> / P' < Fin 0.0001 then ((T', P'), [q])
         else (fst (spec_closure os U cTot mw x n (T', P')),
               q # snd (spec_closure os U cTot mw x n (T', P'))))"

definition closure ::
    "openSMOKE \<Rightarrow> batchAdiabaticOdeSystem \<Rightarrow> double list \<Rightarrow> (double \<times> double) \<times> call list" where
  "closure os sys cc =
     spec_closure os (sys_U sys) (totalConcentration os cc) (molecularWeight os cc)
       (moleFractions os cc) (nat (sys_maxIterations sys)) (sys_TInitial sys, sys_PInitial sys)"

definition closure_T :: "openSMOKE \<Rightarrow> batchAdiabaticOdeSystem \<Rightarrow> double list \<Rightarrow> double" where
  "closure_T os sys cc = fst (fst (closure os sys cc))"

definition closure_P :: "openSMOKE \<Rightarrow> batchAdiabaticOdeSystem \<Rightarrow> double list \<Rightarrow> double" where
  "closure_P os sys cc = snd (fst (closure os sys cc))"

definition closure_calls :: "openSMOKE \<Rightarrow> batchAdiabaticOdeSystem \<Rightarrow> double list \<Rightarrow> call list" where
  "closure_calls os sys cc = snd (closure os sys cc)"

text \<open>
  One iteration of the loop on the pair \<open>(T, P)\<close>, the query it makes to the
  thermodynamic map, the pair after \<open>k\<close> iterations, and the test that ends the loop.
\<close>

definition closure_step ::
    "openSMOKE \<Rightarrow> batchAdiabaticOdeSystem \<Rightarrow> double list \<Rightarrow> double \<times> double \<Rightarrow> double \<times> double" where
  "closure_step os sys cc s =
     (let H = sys_U sys + snd s / (totalConcentration os cc * molecularWeight os cc);
          T' = TemperatureFromEnthalpy os (H * molecularWeight os cc) (snd s)
                 (moleFractions os cc) (fst s)
      in (T', totalConcentration os cc * (R_J_kmol os * T')))"

definition closure_query ::
    "openSMOKE \<Rightarrow> batchAdiabaticOdeSystem \<Rightarrow> double list \<Rightarrow> double \<times> double \<Rightarrow> call" where
  "closure_query os sys cc s =
     (let H = sys_U sys + snd s / (totalConcentration os cc * molecularWeight os cc)
      in Thermo_GetTemperature (H * molecularWeight os cc) (snd s) (moleFractions os cc) (fst s))"

definition closure_iterate ::
    "openSMOKE \<Rightarrow> batchAdiabaticOdeSystem \<Rightarrow> double list \<Rightarrow> nat \<Rightarrow> double \<times> double" where
  "closure_iterate os sys cc k =
     (closure_step os sys cc ^^ k) (sys_TInitial sys, sys_PInitial sys)"

definition tolerance_met :: "double \<Rightarrow> double \<Rightarrow> bool" where
  "tolerance_met Pold P = (\<bar>P - Pold\<bar> / P < Fin 0.0001)"

definition never_met :: "openSMOKE \<Rightarrow> batchAdiabaticOdeSystem \<Rightarrow> double list \<Rightarrow> nat \<Rightarrow> bool" where
  "never_met os sys cc n =
     list_all (\<lambda>k. \<not> tolerance_met
                 (snd ((closure_step os sys cc ^^ k) (sys_TInitial sys, sys_PInitial sys)))
                 (snd ((closure_step os sys cc ^^ Suc k) (sys_TInitial sys, sys_PInitial sys))))
       [0..<n]"

text \<open>The four calls that push the closed state into the maps, lines 107 to 113.\<close>

definition set_calls :: "double \<Rightarrow> double \<Rightarrow> call list" where
  "set_calls T P =
     [Thermo_SetTemperature T, Thermo_SetPressure P,
      Kinetics_SetTemperature T, Kinetics_SetPressure P]"

text \<open>What the kinetics map answers at the closed state.\<close>

definition rates :: "openSMOKE \<Rightarrow> batchAdiabaticOdeSystem \<Rightarrow> double list \<Rightarrow> double list" where
  "rates os sys cc =
     map (FormationRate os (closure_T os sys cc, closure_P os sys cc)
            (closure_T os sys cc, closure_P os sys cc) (clipped os cc))
       [0..<NumberOfSpecies os]"

definition rate_derivatives ::
    "openSMOKE \<Rightarrow> batchAdiabaticOdeSystem \<Rightarrow> double list \<Rightarrow> double list list" where
  "rate_derivatives os sys cc =
     map (\<lambda>i. map (FormationRateDerivative os (closure_T os sys cc, closure_P os sys cc)
                     (closure_T os sys cc, closure_P os sys cc) (clipped os cc) i)
                [0..<NumberOfSpecies os])
       [0..<NumberOfSpecies os]"


text \<open>What a caller sees of a call that returned: the outputs and the state of the maps.\<close>

definition output_of :: "failure + 'a \<times> maps \<Rightarrow> 'a option" where
  "output_of r = (case r of Inl e \<Rightarrow> None | Inr ow \<Rightarrow> Some (fst ow))"


definition kinetics_calls :: "failure + 'a \<times> maps \<Rightarrow> call list" where
  "kinetics_calls r = (case r of Inl e \<Rightarrow> [] | Inr ow \<Rightarrow> filter is_kinetics (calls (snd ow)))"



section \<open>An example mechanism\<close>

text \<open>
  Two species of molecular weights 2 and 32 kg/kmol, an ideal gas of constant molar heat
  capacity \<open>4 R\<close> (so that the molar enthalpy is \<open>4 R T\<close>), one reaction that turns
  the first species into the second at a rate proportional to the temperature, and
  \<open>R = 8314\<close> J/kmol/K. The system starts at 1000 K and 103925 Pa with the internal
  energy of the mixture \<open>[0.01, 0.0025]\<close> kmol/m3 at 1000 K, \<open>3 R T / mw\<close>.
\<close>

definition example_openSMOKE :: openSMOKE where
  "example_openSMOKE =
     \<lparr>NumberOfSpecies = 2,
      MolecularWeight = (\<lambda>x. x ! 0 * Fin 2 + x ! 1 * Fin 32),
      TemperatureFromEnthalpy = (\<lambda>H P x TFirstGuess. H / Fin 33256),
      FormationRate =
        (\<lambda>th kin c i. if i = 0 then Fin 0 - fst kin * c ! 0 / Fin 1000
                     else fst kin * c ! 0 / Fin 1000),
      FormationRateDerivative =
        (\<lambda>th kin c i j. if j = 0 then (if i = 0 then Fin 0 - fst kin / Fin 1000
                                         else fst kin / Fin 1000)
                       else Fin 0),
      R_J_kmol = Fin 8314\<rparr>"

definition example_system :: batchAdiabaticOdeSystem where
  "example_system =
     setInternalEnergy (Fin 3117750)
       (setInitialPressure (Fin 103925)
         (setInitialTemperature (Fin 1000) (batchAdiabaticOdeSystem_new (NaN, NaN, NaN))))"

definition idle_maps :: maps where
  "idle_maps =
     \<lparr>thermo_T = Fin 300, thermo_P = Fin 101325, kinetics_T = Fin 300,
      kinetics_P = Fin 101325, kinetics_R = [], calls = []\<rparr>"

text \<open>
  One call on the mixture the system was configured for, which the loop closes in one
  iteration, and the state of the maps after it.
\<close>

definition example_cc :: "double list" where
  "example_cc = [Fin 0.01, Fin 0.0025]"

definition example_after_derivatives :: maps where
  "example_after_derivatives =
     \<lparr>thermo_T = Fin 1000, thermo_P = Fin 103925, kinetics_T = Fin 1000,
      kinetics_P = Fin 103925, kinetics_R = [Fin (- 0.01), Fin 0.01],
      calls =
        [Thermo_MolecularWeight [Fin 0.8, Fin 0.2],
         Thermo_GetTemperature (Fin 33256000) (Fin 103925) [Fin 0.8, Fin 0.2] (Fin 1000),
         Thermo_SetTemperature (Fin 1000), Thermo_SetPressure (Fin 103925),
         Kinetics_SetTemperature (Fin 1000), Kinetics_SetPressure (Fin 103925),
         Kinetics_ReactionRates [Fin 0.01, Fin 0.0025], Kinetics_FormationRates]\<rparr>"

definition example_after_jacobian :: maps where
  "example_after_jacobian =
     \<lparr>thermo_T = Fin 1000, thermo_P = Fin 103925, kinetics_T = Fin 1000,
      kinetics_P = Fin 103925, kinetics_R = [],
      calls =
        [Thermo_MolecularWeight [Fin 0.8, Fin 0.2],
         Thermo_GetTemperature (Fin 33256000) (Fin 103925) [Fin 0.8, Fin 0.2] (Fin 1000),
         Thermo_SetTemperature (Fin 1000), Thermo_SetPressure (Fin 103925),
         Kinetics_SetTemperature (Fin 1000), Kinetics_SetPressure (Fin 103925),
         Kinetics_DerivativesOfFormationRates [Fin 0.01, Fin 0.0025]]\<rparr>"

text \<open>
  One call on the all-zero concentrations, which the loop never closes: the state of the
  maps after it.
\<close>

definition zero_calls :: "call list" where
  "zero_calls =
     Thermo_MolecularWeight [NaN, NaN]
     # Thermo_GetTemperature NaN (Fin 103925) [NaN, NaN] (Fin 1000)
     # replicate 9 (Thermo_GetTemperature NaN NaN [NaN, NaN] NaN)
     @ [Thermo_SetTemperature NaN, Thermo_SetPressure NaN,
        Kinetics_SetTemperature NaN, Kinetics_SetPressure NaN]"

definition example_after_zero_derivatives :: maps where
  "example_after_zero_derivatives =
     \<lparr>thermo_T = NaN, thermo_P = NaN, kinetics_T = NaN, kinetics_P = NaN,
      kinetics_R = [NaN, NaN],
      calls = zero_calls @ [Kinetics_ReactionRates [0, 0], Kinetics_FormationRates]\<rparr>"

definition example_after_zero_jacobian :: maps where
  "example_after_zero_jacobian =
     \<lparr>thermo_T = NaN, thermo_P = NaN, kinetics_T = NaN, kinetics_P = NaN,
      kinetics_R = [],
      calls = zero_calls @ [Kinetics_DerivativesOfFormationRates [0, 0]]\<rparr>"

text \<open>
  One call on twice that mixture, which the loop closes in seven iterations: the queries
  of the closure and the state of the maps after it.
\<close>

definition example_scaled_queries :: "call list" where
  "example_scaled_queries =
     [Thermo_GetTemperature (Fin 29099000) (Fin 103925) [Fin 0.8, Fin 0.2] (Fin 1000),
      Thermo_GetTemperature (Fin 32216750) (Fin (727475 / 4)) [Fin 0.8, Fin 0.2] (Fin 875),
      Thermo_GetTemperature (Fin (65992375 / 2)) (Fin (3221675 / 16)) [Fin 0.8, Fin 0.2]
        (Fin (3875 / 4)),
      Thermo_GetTemperature (Fin (265528375 / 8)) (Fin (13198475 / 64)) [Fin 0.8, Fin 0.2]
        (Fin (15875 / 16)),
      Thermo_GetTemperature (Fin (1063672375 / 32)) (Fin (53105675 / 256)) [Fin 0.8, Fin 0.2]
        (Fin (63875 / 64)),
      Thermo_GetTemperature (Fin (4256248375 / 128)) (Fin (212734475 / 1024)) [Fin 0.8, Fin 0.2]
        (Fin (255875 / 256)),
      Thermo_GetTemperature (Fin (17026552375 / 512)) (Fin (851249675 / 4096)) [Fin 0.8, Fin 0.2]
        (Fin (1023875 / 1024))]"

definition example_after_scaled :: maps where
  "example_after_scaled =
     \<lparr>thermo_T = Fin (4095875 / 4096), thermo_P = Fin (3405310475 / 16384),
      kinetics_T = Fin (4095875 / 4096), kinetics_P = Fin (3405310475 / 16384),
      kinetics_R = [Fin (- (32767 / 1638400)), Fin (32767 / 1638400)],
      calls =
        Thermo_MolecularWeight [Fin 0.8, Fin 0.2] # example_scaled_queries
        @ [Thermo_SetTemperature (Fin (4095875 / 4096)),
           Thermo_SetPressure (Fin (3405310475 / 16384)),
           Kinetics_SetTemperature (Fin (4095875 / 4096)),
           Kinetics_SetPressure (Fin (3405310475 / 16384)),
           Kinetics_ReactionRates [Fin 0.02, Fin 0.005], Kinetics_FormationRates]\<rparr>"

section \<open>Lemmas\<close>

subsection \<open>The two loops\<close>

lemma derivatives_loop_spec:
  "derivatives_loop os sys cTot mw x n (T, P, w) =
     (fst (fst (spec_closure os (sys_U sys) cTot mw x n (T, P))),
      snd (fst (spec_closure os (sys_U sys) cTot mw x n (T, P))),
      w\<lparr>calls := calls w @ snd (spec_closure os (sys_U sys) cTot mw x n (T, P))\<rparr>)"
proof (induction n arbitrary: T P w)
  case 0
  show ?case by simp
next
  case (Suc n)
  show ?case
    by (simp add: Let_def thermoMap_GetTemperatureFromEnthalpyAndMoleFractions_def Suc)
qed

lemma jacobian_loop_eq:
  "jacobian_loop os sys cTot mw x n s = derivatives_loop os sys cTot mw x n s"
proof (induction n arbitrary: s)
  case 0
  show ?case by (cases s) simp
next
  case (Suc n)
  show ?case by (cases s) (simp add: Let_def Suc split: prod.splits)
qed

subsection \<open>Writing the output fields\<close>

lemma fold_write:
  "n \<le> length d \<Longrightarrow> n \<le> length r \<Longrightarrow>
   fold (\<lambda>i d. d[i := r ! i]) [0..<n] d = take n r @ drop n d"
proof (induction n)
  case 0
  show ?case by simp
next
  case (Suc n)
  then have "fold (\<lambda>i d. d[i := r ! i]) [0..<Suc n] d = (take n r @ drop n d)[n := r ! n]"
    by simp
  also have "\<dots> = take (Suc n) r @ drop (Suc n) d"
    using Suc.prems
    by (simp add: list_update_append take_Suc_conv_app_nth upd_conv_take_nth_drop
        flip: Cons_nth_drop_Suc)
  finally show ?case .
qed

lemma fold_zero:
  "n \<le> length d \<Longrightarrow> fold (\<lambda>i d. d[i := v]) [0..<n] d = replicate n v @ drop n d"
proof (induction n)
  case 0
  show ?case by simp
next
  case (Suc n)
  then have "fold (\<lambda>i d. d[i := v]) [0..<Suc n] d = (replicate n v @ drop n d)[n := v]"
    by simp
  also have "\<dots> = replicate (Suc n) v @ drop (Suc n) d"
    using Suc.prems
    by (simp add: list_update_append replicate_append_same upd_conv_take_nth_drop
        flip: Cons_nth_drop_Suc)
  finally show ?case .
qed

lemma fold_row:
  assumes "i < length m" "n \<le> length (m ! i)" "n \<le> length r"
  shows "fold (\<lambda>j m. m[i := (m ! i)[j := r ! j]]) [0..<n] m = m[i := take n r @ drop n (m ! i)]"
  using assms(2,3)
proof (induction n)
  case 0
  show ?case by simp
next
  case (Suc n)
  then have "fold (\<lambda>j m. m[i := (m ! i)[j := r ! j]]) [0..<Suc n] m
      = m[i := (take n r @ drop n (m ! i))[n := r ! n]]"
    using assms(1) by simp
  also have "(take n r @ drop n (m ! i))[n := r ! n] = take (Suc n) r @ drop (Suc n) (m ! i)"
    using Suc.prems
    by (simp add: list_update_append take_Suc_conv_app_nth upd_conv_take_nth_drop
        flip: Cons_nth_drop_Suc)
  finally show ?case .
qed

lemma fold_matrix:
  assumes "k \<le> length m" "\<forall>i<k. n \<le> length (m ! i)" "\<forall>i<k. n \<le> length (dR ! i)"
  shows "fold (\<lambda>i m. fold (\<lambda>j m. m[i := (m ! i)[j := dR ! i ! j]]) [0..<n] m) [0..<k] m
         = map (\<lambda>i. take n (dR ! i) @ drop n (m ! i)) [0..<k] @ drop k m"
  using assms
proof (induction k)
  case 0
  show ?case by simp
next
  case (Suc k)
  let ?M = "map (\<lambda>i. take n (dR ! i) @ drop n (m ! i)) [0..<k] @ drop k m"
  have k: "k < length m" using Suc.prems by simp
  have len: "length ?M = length m" using k by simp
  have row: "?M ! k = m ! k" using k by (simp add: nth_append)
  have "fold (\<lambda>i m. fold (\<lambda>j m. m[i := (m ! i)[j := dR ! i ! j]]) [0..<n] m) [0..<Suc k] m
      = fold (\<lambda>j m. m[k := (m ! k)[j := dR ! k ! j]]) [0..<n] ?M"
    using Suc by simp
  also have "\<dots> = ?M[k := take n (dR ! k) @ drop n (?M ! k)]"
    using Suc.prems k len row by (intro fold_row) auto
  also have "\<dots> = ?M[k := take n (dR ! k) @ drop n (m ! k)]"
    by (simp only: row)
  also have "\<dots> = map (\<lambda>i. take n (dR ! i) @ drop n (m ! i)) [0..<Suc k] @ drop (Suc k) m"
    using k by (simp add: list_update_append upd_conv_take_nth_drop flip: Cons_nth_drop_Suc)
  finally show ?case .
qed

subsection \<open>What a call returns\<close>

lemma derivatives_Inr:
  assumes "NumberOfSpecies os \<le> length cc" "NumberOfSpecies os \<le> length dcdt"
  shows "derivatives os sys t cc dcdt w =
     Inr (rates os sys cc @ drop (NumberOfSpecies os) dcdt,
          w\<lparr>thermo_T := closure_T os sys cc, thermo_P := closure_P os sys cc,
            kinetics_T := closure_T os sys cc, kinetics_P := closure_P os sys cc,
            kinetics_R := rates os sys cc,
            calls := calls w @ Thermo_MolecularWeight (moleFractions os cc) # closure_calls os sys cc
              @ set_calls (closure_T os sys cc) (closure_P os sys cc)
              @ [Kinetics_ReactionRates (clipped os cc), Kinetics_FormationRates]\<rparr>)"
proof -
  have len: "length (rates os sys cc) = NumberOfSpecies os"
    by (simp add: rates_def)
  have w: "fold (\<lambda>i d. d[i := rates os sys cc ! i]) [0..<NumberOfSpecies os] dcdt
      = rates os sys cc @ drop (NumberOfSpecies os) dcdt"
    using assms(2) len by (simp add: fold_write)
  show ?thesis
    using assms w
    by (simp add: derivatives_def Let_def derivatives_loop_spec
        thermoMap_MolecularWeight_From_MoleFractions_def thermoMap_SetTemperature_def
        thermoMap_SetPressure_def kineticsMap_SetTemperature_def kineticsMap_SetPressure_def
        kineticsMap_ReactionRates_def kineticsMap_FormationRates_def
        closure_T_def closure_P_def closure_calls_def closure_def set_calls_def
        molecularWeight_def moleFractions_def totalConcentration_def clipped_def rates_def)
qed

lemma jacobian_Inr:
  assumes "NumberOfSpecies os \<le> length cc" "NumberOfSpecies os \<le> length dfdt"
    "rows_ok (NumberOfSpecies os) dfdc"
  shows "jacobian os sys t cc dfdt dfdc w =
     Inr ((replicate (NumberOfSpecies os) 0 @ drop (NumberOfSpecies os) dfdt,
           map (\<lambda>i. rate_derivatives os sys cc ! i @ drop (NumberOfSpecies os) (dfdc ! i))
             [0..<NumberOfSpecies os] @ drop (NumberOfSpecies os) dfdc),
          w\<lparr>thermo_T := closure_T os sys cc, thermo_P := closure_P os sys cc,
            kinetics_T := closure_T os sys cc, kinetics_P := closure_P os sys cc,
            calls := calls w @ Thermo_MolecularWeight (moleFractions os cc) # closure_calls os sys cc
              @ set_calls (closure_T os sys cc) (closure_P os sys cc)
              @ [Kinetics_DerivativesOfFormationRates (clipped os cc)]\<rparr>)"
proof -
  let ?N = "NumberOfSpecies os"
  let ?dR = "rate_derivatives os sys cc"
  have rows: "\<forall>i<?N. ?N \<le> length (dfdc ! i)" and n: "?N \<le> length dfdc"
    using assms(3) by (auto simp: rows_ok_def list_all_length)
  have dR: "\<forall>i<?N. ?N \<le> length (?dR ! i)"
    by (simp add: rate_derivatives_def)
  have m: "fold (\<lambda>i m. fold (\<lambda>j m. m[i := (m ! i)[j := ?dR ! i ! j]]) [0..<?N] m) [0..<?N] dfdc
      = map (\<lambda>i. take ?N (?dR ! i) @ drop ?N (dfdc ! i)) [0..<?N] @ drop ?N dfdc"
    using n rows dR by (rule fold_matrix)
  have m': "map (\<lambda>i. take ?N (?dR ! i) @ drop ?N (dfdc ! i)) [0..<?N]
      = map (\<lambda>i. ?dR ! i @ drop ?N (dfdc ! i)) [0..<?N]"
    by (simp add: rate_derivatives_def)
  have z: "fold (\<lambda>i d. d[i := 0]) [0..<?N] dfdt = replicate ?N 0 @ drop ?N dfdt"
    using assms(2) by (rule fold_zero)
  show ?thesis
    using assms m[unfolded m'] z
    by (simp add: jacobian_def Let_def jacobian_loop_eq derivatives_loop_spec
        thermoMap_MolecularWeight_From_MoleFractions_def thermoMap_SetTemperature_def
        thermoMap_SetPressure_def kineticsMap_SetTemperature_def kineticsMap_SetPressure_def
        kineticsMap_DerivativesOfFormationRates_def
        closure_T_def closure_P_def closure_calls_def closure_def set_calls_def
        molecularWeight_def moleFractions_def totalConcentration_def clipped_def
        rate_derivatives_def)
qed

lemma derivatives_Inl:
  assumes "\<not> (NumberOfSpecies os \<le> length cc \<and> NumberOfSpecies os \<le> length dcdt)"
  shows "derivatives os sys t cc dcdt w = Inl IndexOutOfRange"
  using assms by (auto simp: derivatives_def Let_def split: prod.splits)

lemma jacobian_Inl:
  assumes "\<not> (NumberOfSpecies os \<le> length cc \<and> NumberOfSpecies os \<le> length dfdt
             \<and> rows_ok (NumberOfSpecies os) dfdc)"
  shows "jacobian os sys t cc dfdt dfdc w = Inl IndexOutOfRange"
  using assms by (auto simp: jacobian_def Let_def split: prod.splits)

lemma spec_closure_gas_law:
  "0 < n \<Longrightarrow>
   snd (fst (spec_closure os U cTot mw x n (T, P)))
     = cTot * (R_J_kmol os * fst (fst (spec_closure os U cTot mw x n (T, P))))"
proof (induction n arbitrary: T P)
  case 0
  then show ?case by simp
next
  case (Suc n)
  show ?case
  proof (cases n)
    case 0
    then show ?thesis by (simp add: Let_def)
  next
    case (Suc m)
    then have "0 < n" by simp
    from Suc.IH[OF this] show ?thesis by (simp add: Let_def)
  qed
qed

lemma spec_closure_calls:
  "length (snd (spec_closure os U cTot mw x n s)) \<le> n
   \<and> list_all is_GetTemperature (snd (spec_closure os U cTot mw x n s))
   \<and> (0 < n \<longrightarrow> snd (spec_closure os U cTot mw x n s) \<noteq> [])"
proof (induction n arbitrary: s)
  case 0
  show ?case by (cases s) simp
next
  case (Suc n)
  obtain T P where s: "s = (T, P)" by (cases s)
  show ?case
    using Suc[of "(TemperatureFromEnthalpy os ((U + P / (cTot * mw)) * mw) P x T,
                   cTot * (R_J_kmol os * TemperatureFromEnthalpy os ((U + P / (cTot * mw)) * mw) P x T))"]
    by (simp add: s Let_def)
qed

lemma closure_gas_law:
  "0 < sys_maxIterations sys \<Longrightarrow>
   closure_P os sys cc = totalConcentration os cc * (R_J_kmol os * closure_T os sys cc)"
  by (simp add: closure_P_def closure_T_def closure_def spec_closure_gas_law)

lemma spec_closure_never_met:
  assumes "\<forall>k<n. \<not> tolerance_met (snd ((closure_step os sys cc ^^ k) s))
                     (snd ((closure_step os sys cc ^^ Suc k) s))"
  shows "fst (spec_closure os (sys_U sys) (totalConcentration os cc) (molecularWeight os cc)
                (moleFractions os cc) n s) = (closure_step os sys cc ^^ n) s
         \<and> length (snd (spec_closure os (sys_U sys) (totalConcentration os cc)
                (molecularWeight os cc) (moleFractions os cc) n s)) = n"
  using assms
proof (induction n arbitrary: s)
  case 0
  show ?case by (cases s) simp
next
  case (Suc n)
  obtain T P where s: "s = (T, P)" by (cases s)
  let ?s' = "closure_step os sys cc s"
  have first: "\<not> tolerance_met (snd s) (snd ?s')"
    using Suc.prems[rule_format, of 0] by simp
  have rest: "\<forall>k<n. \<not> tolerance_met (snd ((closure_step os sys cc ^^ k) ?s'))
                     (snd ((closure_step os sys cc ^^ Suc k) ?s'))"
  proof (intro allI impI)
    fix k assume "k < n"
    then have "Suc k < Suc n" by simp
    from Suc.prems[rule_format, OF this] show "\<not> tolerance_met (snd ((closure_step os sys cc ^^ k) ?s'))
                     (snd ((closure_step os sys cc ^^ Suc k) ?s'))"
      by (simp add: funpow_swap1)
  qed
  have step: "?s' = (TemperatureFromEnthalpy os ((sys_U sys + P / (totalConcentration os cc * molecularWeight os cc)) * molecularWeight os cc) P (moleFractions os cc) T,
      totalConcentration os cc * (R_J_kmol os * TemperatureFromEnthalpy os ((sys_U sys + P / (totalConcentration os cc * molecularWeight os cc)) * molecularWeight os cc) P (moleFractions os cc) T))"
    by (simp add: closure_step_def s Let_def)
  have "(closure_step os sys cc ^^ Suc n) s = (closure_step os sys cc ^^ n) ?s'"
    by (simp add: funpow_swap1)
  with Suc.IH[OF rest] first show ?case
    unfolding step by (simp add: s Let_def tolerance_met_def)
qed

lemma closure_never_met:
  assumes "never_met os sys cc (nat (sys_maxIterations sys))"
  shows "(closure_T os sys cc, closure_P os sys cc)
           = (closure_step os sys cc ^^ nat (sys_maxIterations sys)) (sys_TInitial sys, sys_PInitial sys)"
    and "length (closure_calls os sys cc) = nat (sys_maxIterations sys)"
  using spec_closure_never_met[of "nat (sys_maxIterations sys)" os sys cc "(sys_TInitial sys, sys_PInitial sys)"] assms
  by (simp_all add: never_met_def list_all_iff closure_T_def closure_P_def closure_calls_def closure_def)

subsection \<open>The example, evaluated\<close>

lemmas example_defs = example_openSMOKE_def example_system_def idle_maps_def example_cc_def
  setInternalEnergy_def setInitialPressure_def setInitialTemperature_def
  batchAdiabaticOdeSystem_new_def

lemmas run_defs = derivatives_def jacobian_def rows_ok_def std_max_def zero_double_def
  inverse_double_def Let_def eval_nat_numeral
  thermoMap_MolecularWeight_From_MoleFractions_def
  thermoMap_GetTemperatureFromEnthalpyAndMoleFractions_def thermoMap_SetTemperature_def
  thermoMap_SetPressure_def kineticsMap_SetTemperature_def kineticsMap_SetPressure_def
  kineticsMap_ReactionRates_def kineticsMap_FormationRates_def
  kineticsMap_DerivativesOfFormationRates_def

lemma example_derivatives:
  "derivatives example_openSMOKE example_system 0 example_cc [Fin 7, Fin 7] idle_maps
     = Inr ([Fin (- 0.01), Fin 0.01], example_after_derivatives)"
  by (simp add: example_defs run_defs example_after_derivatives_def)

lemma example_jacobian:
  "jacobian example_openSMOKE example_system 0 example_cc [Fin 7, Fin 7]
       [[Fin 7, Fin 7], [Fin 7, Fin 7]] idle_maps
     = Inr (([0, 0], [[Fin (- 1), 0], [Fin 1, 0]]), example_after_jacobian)"
  by (simp add: example_defs run_defs example_after_jacobian_def)

lemma example_clipped: "clipped example_openSMOKE example_cc = example_cc"
  by (simp add: clipped_def example_defs std_max_def zero_double_def eval_nat_numeral)

subsection \<open>Clipping\<close>

lemma std_max_idem: "std_max (std_max v 0) 0 = std_max v 0"
  by (cases v) (simp_all add: std_max_def zero_double_def)

lemma length_clipped: "length (clipped os cc) = NumberOfSpecies os"
  by (simp add: clipped_def)

lemma clipped_nth:
  "i < NumberOfSpecies os \<Longrightarrow> clipped os cc ! i = (if cc ! i < 0 then 0 else cc ! i)"
  by (simp add: clipped_def std_max_def)

lemma clipped_idem: "clipped os (clipped os cc) = clipped os cc"
  by (simp add: clipped_def std_max_idem)

lemma quantities_cong:
  assumes "clipped os cc = clipped os cc'"
  shows "totalConcentration os cc = totalConcentration os cc'"
    and "moleFractions os cc = moleFractions os cc'"
    and "molecularWeight os cc = molecularWeight os cc'"
    and "closure os sys cc = closure os sys cc'"
    and "rates os sys cc = rates os sys cc'"
    and "rate_derivatives os sys cc = rate_derivatives os sys cc'"
  using assms
  by (simp_all add: totalConcentration_def moleFractions_def molecularWeight_def closure_def
      rates_def rate_derivatives_def closure_T_def closure_P_def)

lemma derivatives_cong:
  assumes "NumberOfSpecies os \<le> length cc" "NumberOfSpecies os \<le> length cc'"
    and "clipped os cc = clipped os cc'"
  shows "derivatives os sys t cc dcdt w = derivatives os sys t cc' dcdt w"
proof (cases "NumberOfSpecies os \<le> length dcdt")
  case True
  with assms show ?thesis
    by (simp add: derivatives_Inr quantities_cong[OF assms(3)] closure_T_def closure_P_def
        closure_calls_def)
next
  case False
  then show ?thesis by (simp add: derivatives_Inl)
qed

lemma jacobian_cong:
  assumes "NumberOfSpecies os \<le> length cc" "NumberOfSpecies os \<le> length cc'"
    and "clipped os cc = clipped os cc'"
  shows "jacobian os sys t cc dfdt dfdc w = jacobian os sys t cc' dfdt dfdc w"
proof (cases "NumberOfSpecies os \<le> length dfdt \<and> rows_ok (NumberOfSpecies os) dfdc")
  case True
  with assms show ?thesis
    by (simp add: jacobian_Inr quantities_cong[OF assms(3)] closure_T_def closure_P_def
        closure_calls_def)
next
  case False
  then show ?thesis by (auto simp: jacobian_Inl)
qed

subsection \<open>The all-zero input\<close>

lemma example_zero_derivatives:
  "derivatives example_openSMOKE example_system 0 [0, 0] [Fin 7, Fin 7] idle_maps
     = Inr ([NaN, NaN], example_after_zero_derivatives)"
  by (simp add: example_defs run_defs example_after_zero_derivatives_def zero_calls_def)

lemma example_zero_jacobian:
  "jacobian example_openSMOKE example_system 0 [0, 0] [Fin 7, Fin 7]
       [[Fin 7, Fin 7], [Fin 7, Fin 7]] idle_maps
     = Inr (([0, 0], [[NaN, 0], [NaN, 0]]), example_after_zero_jacobian)"
  by (simp add: example_defs run_defs example_after_zero_jacobian_def zero_calls_def)

lemma NaN_absorbs [simp]:
  "a + NaN = NaN" "a - NaN = NaN" "a * NaN = NaN" "a / NaN = NaN"
  by (cases a; simp)+

lemma example_zero_step:
  "closure_step example_openSMOKE example_system [0, 0] s = (NaN, NaN)"
  by (simp add: closure_step_def totalConcentration_def clipped_def moleFractions_def
      molecularWeight_def example_defs std_max_def zero_double_def eval_nat_numeral Let_def)

lemma example_zero_iterates:
  "(closure_step example_openSMOKE example_system [0, 0] ^^ Suc k) s = (NaN, NaN)"
  by (simp add: example_zero_step)

lemma example_zero_never_met: "never_met example_openSMOKE example_system [0, 0] 10"
  unfolding never_met_def list_all_iff
  by (simp only: example_zero_iterates) (simp add: tolerance_met_def)

lemma filter_closure_calls:
  "filter is_GetTemperature (closure_calls os sys cc) = closure_calls os sys cc"
proof -
  have "list_all is_GetTemperature (closure_calls os sys cc)"
    using spec_closure_calls by (simp add: closure_calls_def closure_def)
  then show ?thesis by (simp add: list_all_iff)
qed

lemma length_closure_calls:
  "length (closure_calls os sys cc) \<le> nat (sys_maxIterations sys)"
  using spec_closure_calls by (simp add: closure_calls_def closure_def)

subsection \<open>Sums of finite doubles\<close>

lemma plus_Fin_cases: "a + v = Fin s \<Longrightarrow> \<exists>r q. a = Fin r \<and> v = Fin q \<and> s = r + q"
  by (cases a; cases v) simp_all

lemma foldl_plus_Fin:
  "foldl (+) a vs = Fin s \<Longrightarrow> \<exists>r rs. a = Fin r \<and> vs = map Fin rs \<and> s = r + sum_list rs"
proof (induction vs arbitrary: a)
  case Nil
  then show ?case by simp
next
  case (Cons v vs)
  then obtain r' rs where av: "a + v = Fin r'" and vs: "vs = map Fin rs" and s: "s = r' + sum_list rs"
    by fastforce
  from plus_Fin_cases[OF av] obtain r q where "a = Fin r" "v = Fin q" "r' = r + q"
    by blast
  then have "a = Fin r \<and> v # vs = map Fin (q # rs) \<and> s = r + sum_list (q # rs)"
    using vs s by simp
  then show ?case by (intro exI[of _ r] exI[of _ "q # rs"])
qed

lemma eigen_sum_Fin:
  assumes "eigen_sum c = Fin s"
  shows "\<exists>rs. c = map Fin rs \<and> s = sum_list rs"
proof (cases c)
  case Nil
  with assms show ?thesis by (simp add: zero_double_def)
next
  case (Cons v vs)
  with assms have "foldl (+) v vs = Fin s" by simp
  from foldl_plus_Fin[OF this] obtain r rs where "v = Fin r" "vs = map Fin rs" "s = r + sum_list rs"
    by blast
  then have "c = map Fin (r # rs) \<and> s = sum_list (r # rs)"
    using Cons by simp
  then show ?thesis by (intro exI[of _ "r # rs"])
qed

lemma std_max_not_negative: "std_max v 0 = Fin r \<Longrightarrow> 0 \<le> r"
  by (cases v) (auto simp: std_max_def zero_double_def split: if_splits)

lemma zero_total_mole_fractions:
  assumes "totalConcentration os cc = 0"
  shows "moleFractions os cc = replicate (NumberOfSpecies os) NaN"
proof -
  from assms obtain rs where c: "clipped os cc = map Fin rs" and s: "sum_list rs = 0"
    using eigen_sum_Fin[of "clipped os cc" 0] by (auto simp: totalConcentration_def zero_double_def)
  have len: "length rs = NumberOfSpecies os"
    using c length_clipped[of os cc] by simp
  have "0 \<le> r" if "r \<in> set rs" for r
  proof -
    from that obtain i where i: "i < length rs" and r: "rs ! i = r"
      by (auto simp: in_set_conv_nth)
    have "clipped os cc ! i = Fin r"
      using i r by (simp add: c)
    moreover have "clipped os cc ! i = std_max (cc ! i) 0"
      using i len by (simp add: clipped_def)
    ultimately show ?thesis
      using std_max_not_negative by simp
  qed
  then have zero: "\<forall>r\<in>set rs. r = 0"
    using s by (simp add: sum_list_nonneg_eq_0_iff)
  have "moleFractions os cc ! i = NaN" if "i < NumberOfSpecies os" for i
    using that zero len assms by (simp add: moleFractions_def c zero_double_def)
  then show ?thesis
    by (simp add: list_eq_iff_nth_eq moleFractions_def)
qed

subsection \<open>Finite sums, scaled concentrations and the pressure a call leaves\<close>








subsection \<open>The loop, iteration by iteration\<close>

lemma spec_closure_step:
  "spec_closure os (sys_U sys) (totalConcentration os cc) (molecularWeight os cc)
     (moleFractions os cc) (Suc n) s =
   (if tolerance_met (snd s) (snd (closure_step os sys cc s))
    then (closure_step os sys cc s, [closure_query os sys cc s])
    else (fst (spec_closure os (sys_U sys) (totalConcentration os cc) (molecularWeight os cc)
                 (moleFractions os cc) n (closure_step os sys cc s)),
          closure_query os sys cc s
          # snd (spec_closure os (sys_U sys) (totalConcentration os cc) (molecularWeight os cc)
                 (moleFractions os cc) n (closure_step os sys cc s))))"
  by (cases s) (simp add: closure_step_def closure_query_def tolerance_met_def Let_def)

lemma spec_closure_trace:
  fixes os sys cc
  defines "st \<equiv> closure_step os sys cc"
    and "run \<equiv> spec_closure os (sys_U sys) (totalConcentration os cc) (molecularWeight os cc)
                  (moleFractions os cc)"
  shows "length (snd (run n s)) \<le> n
       \<and> (0 < n \<longrightarrow> 0 < length (snd (run n s)))
       \<and> fst (run n s) = (st ^^ length (snd (run n s))) s
       \<and> (\<forall>k<length (snd (run n s)). snd (run n s) ! k = closure_query os sys cc ((st ^^ k) s))
       \<and> (\<forall>k. Suc k < length (snd (run n s)) \<longrightarrow>
             \<not> tolerance_met (snd ((st ^^ k) s)) (snd ((st ^^ Suc k) s)))
       \<and> (0 < length (snd (run n s)) \<and> length (snd (run n s)) < n \<longrightarrow>
             tolerance_met (snd ((st ^^ (length (snd (run n s)) - 1)) s))
               (snd ((st ^^ length (snd (run n s))) s)))"
proof (induction n arbitrary: s)
  case 0
  show ?case by (cases s) (simp add: run_def)
next
  case (Suc n)
  show ?case
  proof (cases "tolerance_met (snd s) (snd (st s))")
    case True
    then have r: "run (Suc n) s = (st s, [closure_query os sys cc s])"
      unfolding run_def st_def by (simp only: spec_closure_step if_True)
    show ?thesis using True by (simp add: r)
  next
    case False
    let ?r = "run n (st s)"
    let ?m = "length (snd ?r)"
    have r: "run (Suc n) s = (fst ?r, closure_query os sys cc s # snd ?r)"
      using False unfolding run_def st_def by (simp only: spec_closure_step if_False)
    note IH = Suc.IH[of "st s"]
    have sw: "(st ^^ k) (st s) = (st ^^ Suc k) s" for k
      by (simp add: funpow_swap1)
    have 1: "length (snd (run (Suc n) s)) \<le> Suc n"
      using IH by (simp add: r)
    have 2: "0 < length (snd (run (Suc n) s))"
      by (simp add: r)
    have 3: "fst (run (Suc n) s) = (st ^^ length (snd (run (Suc n) s))) s"
      using IH by (simp add: r funpow_swap1)
    have 4: "snd (run (Suc n) s) ! k = closure_query os sys cc ((st ^^ k) s)"
      if "k < length (snd (run (Suc n) s))" for k
    proof (cases k)
      case 0
      then show ?thesis by (simp add: r)
    next
      case (Suc j)
      with that have "j < ?m" by (simp add: r)
      with IH have "snd ?r ! j = closure_query os sys cc ((st ^^ j) (st s))" by blast
      then show ?thesis by (simp add: r Suc funpow_swap1)
    qed
    have 5: "\<not> tolerance_met (snd ((st ^^ k) s)) (snd ((st ^^ Suc k) s))"
      if "Suc k < length (snd (run (Suc n) s))" for k
    proof (cases k)
      case 0
      then show ?thesis using False by simp
    next
      case (Suc j)
      with that have "Suc j < ?m" by (simp add: r)
      with IH have "\<not> tolerance_met (snd ((st ^^ j) (st s))) (snd ((st ^^ Suc j) (st s)))"
        by blast
      then show ?thesis by (simp add: Suc funpow_swap1)
    qed
    have 6: "tolerance_met (snd ((st ^^ (length (snd (run (Suc n) s)) - 1)) s))
               (snd ((st ^^ length (snd (run (Suc n) s))) s))"
      if "length (snd (run (Suc n) s)) < Suc n"
    proof -
      from that have mn: "?m < n" by (simp add: r)
      then have "0 < n" by simp
      with IH have pos: "0 < ?m" by blast
      with mn IH have "tolerance_met (snd ((st ^^ (?m - 1)) (st s))) (snd ((st ^^ ?m) (st s)))"
        by blast
      moreover from pos obtain j where j: "?m = Suc j" by (cases ?m) simp_all
      ultimately show ?thesis by (simp add: r j funpow_swap1)
    qed
    from 1 2 3 4 5 6 show ?thesis by blast
  qed
qed

lemma closure_trace:
  "length (closure_calls os sys cc) \<le> nat (sys_maxIterations sys)
   \<and> (0 < sys_maxIterations sys \<longrightarrow> 0 < length (closure_calls os sys cc))
   \<and> (closure_T os sys cc, closure_P os sys cc)
       = closure_iterate os sys cc (length (closure_calls os sys cc))
   \<and> (\<forall>k<length (closure_calls os sys cc).
         closure_calls os sys cc ! k = closure_query os sys cc (closure_iterate os sys cc k))
   \<and> (\<forall>k. Suc k < length (closure_calls os sys cc) \<longrightarrow>
         \<not> tolerance_met (snd (closure_iterate os sys cc k))
             (snd (closure_iterate os sys cc (Suc k))))
   \<and> (0 < length (closure_calls os sys cc)
        \<and> length (closure_calls os sys cc) < nat (sys_maxIterations sys) \<longrightarrow>
         tolerance_met (snd (closure_iterate os sys cc (length (closure_calls os sys cc) - 1)))
           (snd (closure_iterate os sys cc (length (closure_calls os sys cc)))))"
  using spec_closure_trace[of os sys cc "nat (sys_maxIterations sys)"
      "(sys_TInitial sys, sys_PInitial sys)"]
  unfolding closure_calls_def closure_T_def closure_P_def closure_def closure_iterate_def
  by simp

lemma example_scaled_derivatives:
  "derivatives example_openSMOKE example_system 0 [Fin 0.02, Fin 0.005] [Fin 7, Fin 7] idle_maps
     = Inr ([Fin (- (32767 / 1638400)), Fin (32767 / 1638400)], example_after_scaled)"
  by (simp add: example_defs run_defs example_after_scaled_def example_scaled_queries_def)

section \<open>The claims\<close>

text \<open>
  Claim C1, as amended. Neither \<open>derivatives\<close> nor \<open>jacobian\<close> checks the total
  concentration: no call raises \<open>DegenerateStateError\<close>, and every call on fields of
  \<open>N\<close> entries, the all-zero one included, sets the closed state on the kinetics
  map and queries it. When the total is zero every mole fraction is \<open>0 / 0\<close>, NaN.
\<close>

theorem no_degenerate_state_check:
  "derivatives os sys t cc dcdt w \<noteq> Inl DegenerateStateError
   \<and> jacobian os sys t cc dfdt dfdc w \<noteq> Inl DegenerateStateError
   \<and> (NumberOfSpecies os \<le> length cc \<and> NumberOfSpecies os \<le> length dcdt \<longrightarrow>
        kinetics_calls (derivatives os sys t cc dcdt w)
          = filter is_kinetics (calls w)
            @ [Kinetics_SetTemperature (closure_T os sys cc),
               Kinetics_SetPressure (closure_P os sys cc),
               Kinetics_ReactionRates (clipped os cc), Kinetics_FormationRates])
   \<and> (NumberOfSpecies os \<le> length cc \<and> NumberOfSpecies os \<le> length dfdt
        \<and> rows_ok (NumberOfSpecies os) dfdc \<longrightarrow>
        kinetics_calls (jacobian os sys t cc dfdt dfdc w)
          = filter is_kinetics (calls w)
            @ [Kinetics_SetTemperature (closure_T os sys cc),
               Kinetics_SetPressure (closure_P os sys cc),
               Kinetics_DerivativesOfFormationRates (clipped os cc)])
   \<and> (totalConcentration os cc = 0 \<longrightarrow>
        moleFractions os cc = replicate (NumberOfSpecies os) NaN)"
proof -
  have not_kinetics: "filter is_kinetics (closure_calls os sys cc) = []"
  proof -
    have "list_all is_GetTemperature (closure_calls os sys cc)"
      using spec_closure_calls by (simp add: closure_calls_def closure_def)
    moreover have "is_GetTemperature q \<Longrightarrow> \<not> is_kinetics q" for q
      by (cases q) simp_all
    ultimately show ?thesis
      by (auto simp: list_all_iff filter_empty_conv)
  qed
  have d: "derivatives os sys t cc dcdt w \<noteq> Inl DegenerateStateError"
    by (cases "NumberOfSpecies os \<le> length cc \<and> NumberOfSpecies os \<le> length dcdt")
      (simp_all add: derivatives_Inr derivatives_Inl)
  have j: "jacobian os sys t cc dfdt dfdc w \<noteq> Inl DegenerateStateError"
    by (cases "NumberOfSpecies os \<le> length cc \<and> NumberOfSpecies os \<le> length dfdt
          \<and> rows_ok (NumberOfSpecies os) dfdc")
      (simp_all add: jacobian_Inr jacobian_Inl)
  have kd: "kinetics_calls (derivatives os sys t cc dcdt w)
          = filter is_kinetics (calls w)
            @ [Kinetics_SetTemperature (closure_T os sys cc),
               Kinetics_SetPressure (closure_P os sys cc),
               Kinetics_ReactionRates (clipped os cc), Kinetics_FormationRates]"
    if "NumberOfSpecies os \<le> length cc \<and> NumberOfSpecies os \<le> length dcdt"
    using that by (simp add: derivatives_Inr kinetics_calls_def not_kinetics set_calls_def)
  have kj: "kinetics_calls (jacobian os sys t cc dfdt dfdc w)
          = filter is_kinetics (calls w)
            @ [Kinetics_SetTemperature (closure_T os sys cc),
               Kinetics_SetPressure (closure_P os sys cc),
               Kinetics_DerivativesOfFormationRates (clipped os cc)]"
    if "NumberOfSpecies os \<le> length cc \<and> NumberOfSpecies os \<le> length dfdt
        \<and> rows_ok (NumberOfSpecies os) dfdc"
    using that by (simp add: jacobian_Inr kinetics_calls_def not_kinetics set_calls_def)
  from d j kd kj zero_total_mole_fractions show ?thesis
    by blast
qed

theorem no_degenerate_state_check_witness:
  "NumberOfSpecies example_openSMOKE \<le> length [0, 0 :: double]
   \<and> NumberOfSpecies example_openSMOKE \<le> length [Fin 7, Fin 7]
   \<and> rows_ok (NumberOfSpecies example_openSMOKE) [[Fin 7, Fin 7], [Fin 7, Fin 7]]
   \<and> totalConcentration example_openSMOKE [0, 0] = 0
   \<and> moleFractions example_openSMOKE [0, 0] = [NaN, NaN]
   \<and> kinetics_calls
        (derivatives example_openSMOKE example_system 0 [0, 0] [Fin 7, Fin 7] idle_maps)
       = [Kinetics_SetTemperature (closure_T example_openSMOKE example_system [0, 0]),
          Kinetics_SetPressure (closure_P example_openSMOKE example_system [0, 0]),
          Kinetics_ReactionRates [0, 0], Kinetics_FormationRates]
   \<and> kinetics_calls
        (jacobian example_openSMOKE example_system 0 [0, 0] [Fin 7, Fin 7]
           [[Fin 7, Fin 7], [Fin 7, Fin 7]] idle_maps)
       = [Kinetics_SetTemperature (closure_T example_openSMOKE example_system [0, 0]),
          Kinetics_SetPressure (closure_P example_openSMOKE example_system [0, 0]),
          Kinetics_DerivativesOfFormationRates [0, 0]]"
proof -
  have sizes: "NumberOfSpecies example_openSMOKE \<le> length [0, 0 :: double]
      \<and> NumberOfSpecies example_openSMOKE \<le> length [Fin 7, Fin 7]"
    and rows: "rows_ok (NumberOfSpecies example_openSMOKE) [[Fin 7, Fin 7], [Fin 7, Fin 7]]"
    and total: "totalConcentration example_openSMOKE [0, 0] = 0"
    and clip: "clipped example_openSMOKE [0, 0] = [0, 0]"
    by (simp_all add: totalConcentration_def clipped_def example_openSMOKE_def rows_ok_def
        std_max_def zero_double_def eval_nat_numeral)
  note inst = no_degenerate_state_check[of example_openSMOKE example_system 0 "[0, 0]"
      "[Fin 7, Fin 7]" idle_maps "[Fin 7, Fin 7]" "[[Fin 7, Fin 7], [Fin 7, Fin 7]]"]
  from inst total have x: "moleFractions example_openSMOKE [0, 0] = [NaN, NaN]"
    by (simp add: example_openSMOKE_def eval_nat_numeral)
  from inst sizes rows clip
  have k: "kinetics_calls
        (derivatives example_openSMOKE example_system 0 [0, 0] [Fin 7, Fin 7] idle_maps)
       = [Kinetics_SetTemperature (closure_T example_openSMOKE example_system [0, 0]),
          Kinetics_SetPressure (closure_P example_openSMOKE example_system [0, 0]),
          Kinetics_ReactionRates [0, 0], Kinetics_FormationRates]"
    "kinetics_calls
        (jacobian example_openSMOKE example_system 0 [0, 0] [Fin 7, Fin 7]
           [[Fin 7, Fin 7], [Fin 7, Fin 7]] idle_maps)
       = [Kinetics_SetTemperature (closure_T example_openSMOKE example_system [0, 0]),
          Kinetics_SetPressure (closure_P example_openSMOKE example_system [0, 0]),
          Kinetics_DerivativesOfFormationRates [0, 0]]"
    by (simp_all add: idle_maps_def)
  from sizes rows total x k show ?thesis by blast
qed

text \<open>
  The claim as stated fails on the all-zero input: both calls return, with NaN set on the
  kinetics map and, from \<open>derivatives\<close>, NaN as the derivative of each species.
\<close>

theorem degenerate_state_counterexample:
  "totalConcentration example_openSMOKE [0, 0] = 0
   \<and> derivatives example_openSMOKE example_system 0 [0, 0] [Fin 7, Fin 7] idle_maps
       = Inr ([NaN, NaN], example_after_zero_derivatives)
   \<and> derivatives example_openSMOKE example_system 0 [0, 0] [Fin 7, Fin 7] idle_maps
       \<noteq> Inl DegenerateStateError
   \<and> kinetics_calls
        (derivatives example_openSMOKE example_system 0 [0, 0] [Fin 7, Fin 7] idle_maps)
       = [Kinetics_SetTemperature NaN, Kinetics_SetPressure NaN,
          Kinetics_ReactionRates [0, 0], Kinetics_FormationRates]
   \<and> jacobian example_openSMOKE example_system 0 [0, 0] [Fin 7, Fin 7]
        [[Fin 7, Fin 7], [Fin 7, Fin 7]] idle_maps
       = Inr (([0, 0], [[NaN, 0], [NaN, 0]]), example_after_zero_jacobian)
   \<and> jacobian example_openSMOKE example_system 0 [0, 0] [Fin 7, Fin 7]
        [[Fin 7, Fin 7], [Fin 7, Fin 7]] idle_maps
       \<noteq> Inl DegenerateStateError
   \<and> kinetics_calls
        (jacobian example_openSMOKE example_system 0 [0, 0] [Fin 7, Fin 7]
           [[Fin 7, Fin 7], [Fin 7, Fin 7]] idle_maps)
       = [Kinetics_SetTemperature NaN, Kinetics_SetPressure NaN,
          Kinetics_DerivativesOfFormationRates [0, 0]]"
  by (simp add: example_zero_derivatives example_zero_jacobian kinetics_calls_def
      example_after_zero_derivatives_def example_after_zero_jacobian_def zero_calls_def)
    (simp add: totalConcentration_def clipped_def example_openSMOKE_def std_max_def
      zero_double_def eval_nat_numeral)




text \<open>
  Claim C3. A call of \<open>derivatives\<close> on fields of \<open>N\<close> entries runs the closure loop
  as follows. Iteration \<open>k + 1\<close> takes the pair \<open>(T, P)\<close> of iteration \<open>k\<close> (the
  configured initial pair for \<open>k = 0\<close>), computes \<open>H = U + P / (cTot \<times> mw)\<close>, asks
  the thermodynamic map for the temperature at that enthalpy (per kmol, \<open>H \<times> mw\<close>) with
  the previous \<open>T\<close> as first guess, and sets \<open>P = cTot \<times> (R \<times> T)\<close>, the product of
  \<open>cTot\<close>, \<open>R\<close> and \<open>T\<close> as the source takes it. The queries the map receives
  are those of the iterations made, in order; an iteration is followed by another only
  if \<open>|P - P_previous| / P < 1e-4\<close> failed, the loop ends before its budget only on
  an iteration where it held, and the pair of the last iteration is set on both maps.
\<close>

theorem closure_iterations:
  assumes "NumberOfSpecies os \<le> length cc" "NumberOfSpecies os \<le> length dcdt"
  shows "(\<exists>out w'. derivatives os sys t cc dcdt w = Inr (out, w') \<and>
          (let qs = filter is_GetTemperature (drop (length (calls w)) (calls w'));
               n = length qs
           in n \<le> nat (sys_maxIterations sys)
            \<and> (0 < sys_maxIterations sys \<longrightarrow> 0 < n)
            \<and> (\<forall>k<n. qs ! k = closure_query os sys cc (closure_iterate os sys cc k))
            \<and> (\<forall>k. Suc k < n \<longrightarrow>
                  \<not> tolerance_met (snd (closure_iterate os sys cc k))
                      (snd (closure_iterate os sys cc (Suc k))))
            \<and> (0 < n \<and> n < nat (sys_maxIterations sys) \<longrightarrow>
                  tolerance_met (snd (closure_iterate os sys cc (n - 1)))
                    (snd (closure_iterate os sys cc n)))
            \<and> (thermo_T w', thermo_P w') = closure_iterate os sys cc n
            \<and> (kinetics_T w', kinetics_P w') = closure_iterate os sys cc n))
       \<and> closure_iterate os sys cc 0 = (sys_TInitial sys, sys_PInitial sys)
       \<and> closure_iterate os sys cc (Suc k)
           = (let cTot = eigen_sum (clipped os cc);
                  x = map (\<lambda>i. clipped os cc ! i / cTot) [0..<NumberOfSpecies os];
                  mw = MolecularWeight os x;
                  T = fst (closure_iterate os sys cc k);
                  P = snd (closure_iterate os sys cc k);
                  H = sys_U sys + P / (cTot * mw);
                  T' = TemperatureFromEnthalpy os (H * mw) P x T
              in (T', cTot * (R_J_kmol os * T')))
       \<and> closure_query os sys cc (T, P)
           = (let cTot = eigen_sum (clipped os cc);
                  x = map (\<lambda>i. clipped os cc ! i / cTot) [0..<NumberOfSpecies os];
                  mw = MolecularWeight os x;
                  H = sys_U sys + P / (cTot * mw)
              in Thermo_GetTemperature (H * mw) P x T)
       \<and> tolerance_met Pold P' = (\<bar>P' - Pold\<bar> / P' < Fin 0.0001)"
proof -
  let ?w' = "w\<lparr>thermo_T := closure_T os sys cc, thermo_P := closure_P os sys cc,
            kinetics_T := closure_T os sys cc, kinetics_P := closure_P os sys cc,
            kinetics_R := rates os sys cc,
            calls := calls w @ Thermo_MolecularWeight (moleFractions os cc) # closure_calls os sys cc
              @ set_calls (closure_T os sys cc) (closure_P os sys cc)
              @ [Kinetics_ReactionRates (clipped os cc), Kinetics_FormationRates]\<rparr>"
  let ?out = "rates os sys cc @ drop (NumberOfSpecies os) dcdt"
  have run: "derivatives os sys t cc dcdt w = Inr (?out, ?w')"
    using assms by (rule derivatives_Inr)
  have qs: "filter is_GetTemperature (drop (length (calls w)) (calls ?w'))
      = closure_calls os sys cc"
    by (simp add: filter_closure_calls set_calls_def)
  have state: "(thermo_T ?w', thermo_P ?w') = (closure_T os sys cc, closure_P os sys cc)"
    "(kinetics_T ?w', kinetics_P ?w') = (closure_T os sys cc, closure_P os sys cc)"
    by simp_all
  have trace: "let qs = filter is_GetTemperature (drop (length (calls w)) (calls ?w'));
               n = length qs
           in n \<le> nat (sys_maxIterations sys)
            \<and> (0 < sys_maxIterations sys \<longrightarrow> 0 < n)
            \<and> (\<forall>k<n. qs ! k = closure_query os sys cc (closure_iterate os sys cc k))
            \<and> (\<forall>k. Suc k < n \<longrightarrow>
                  \<not> tolerance_met (snd (closure_iterate os sys cc k))
                      (snd (closure_iterate os sys cc (Suc k))))
            \<and> (0 < n \<and> n < nat (sys_maxIterations sys) \<longrightarrow>
                  tolerance_met (snd (closure_iterate os sys cc (n - 1)))
                    (snd (closure_iterate os sys cc n)))
            \<and> (thermo_T ?w', thermo_P ?w') = closure_iterate os sys cc n
            \<and> (kinetics_T ?w', kinetics_P ?w') = closure_iterate os sys cc n"
    unfolding qs state Let_def using closure_trace[of os sys cc] by blast
  have first: "closure_iterate os sys cc 0 = (sys_TInitial sys, sys_PInitial sys)"
    by (simp add: closure_iterate_def)
  have step: "closure_iterate os sys cc (Suc k)
           = (let cTot = eigen_sum (clipped os cc);
                  x = map (\<lambda>i. clipped os cc ! i / cTot) [0..<NumberOfSpecies os];
                  mw = MolecularWeight os x;
                  T = fst (closure_iterate os sys cc k);
                  P = snd (closure_iterate os sys cc k);
                  H = sys_U sys + P / (cTot * mw);
                  T' = TemperatureFromEnthalpy os (H * mw) P x T
              in (T', cTot * (R_J_kmol os * T')))"
    by (simp add: closure_iterate_def closure_step_def totalConcentration_def
        moleFractions_def molecularWeight_def Let_def)
  have query: "closure_query os sys cc (T, P)
           = (let cTot = eigen_sum (clipped os cc);
                  x = map (\<lambda>i. clipped os cc ! i / cTot) [0..<NumberOfSpecies os];
                  mw = MolecularWeight os x;
                  H = sys_U sys + P / (cTot * mw)
              in Thermo_GetTemperature (H * mw) P x T)"
    by (simp add: closure_query_def totalConcentration_def moleFractions_def
        molecularWeight_def Let_def)
  have test: "tolerance_met Pold P' = (\<bar>P' - Pold\<bar> / P' < Fin 0.0001)"
    by (simp add: tolerance_met_def)
  from run trace have "\<exists>out w'. derivatives os sys t cc dcdt w = Inr (out, w') \<and>
          (let qs = filter is_GetTemperature (drop (length (calls w)) (calls w'));
               n = length qs
           in n \<le> nat (sys_maxIterations sys)
            \<and> (0 < sys_maxIterations sys \<longrightarrow> 0 < n)
            \<and> (\<forall>k<n. qs ! k = closure_query os sys cc (closure_iterate os sys cc k))
            \<and> (\<forall>k. Suc k < n \<longrightarrow>
                  \<not> tolerance_met (snd (closure_iterate os sys cc k))
                      (snd (closure_iterate os sys cc (Suc k))))
            \<and> (0 < n \<and> n < nat (sys_maxIterations sys) \<longrightarrow>
                  tolerance_met (snd (closure_iterate os sys cc (n - 1)))
                    (snd (closure_iterate os sys cc n)))
            \<and> (thermo_T w', thermo_P w') = closure_iterate os sys cc n
            \<and> (kinetics_T w', kinetics_P w') = closure_iterate os sys cc n)"
    by (intro exI[of _ ?out] exI[of _ ?w'] conjI)
  with first step query test show ?thesis by (intro conjI)
qed

theorem closure_iterations_witness:
  "NumberOfSpecies example_openSMOKE \<le> length [Fin 0.02, Fin 0.005]
   \<and> NumberOfSpecies example_openSMOKE \<le> length [Fin 7, Fin 7]
   \<and> 0 < sys_maxIterations example_system
   \<and> (\<exists>out w'. derivatives example_openSMOKE example_system 0 [Fin 0.02, Fin 0.005]
                   [Fin 7, Fin 7] idle_maps = Inr (out, w')
         \<and> filter is_GetTemperature (drop (length (calls idle_maps)) (calls w'))
             = example_scaled_queries
         \<and> example_scaled_queries ! 1
             = closure_query example_openSMOKE example_system [Fin 0.02, Fin 0.005]
                 (closure_iterate example_openSMOKE example_system [Fin 0.02, Fin 0.005] 1)
         \<and> (thermo_T w', thermo_P w')
             = closure_iterate example_openSMOKE example_system [Fin 0.02, Fin 0.005] 7)
   \<and> length example_scaled_queries = 7
   \<and> \<not> tolerance_met
         (snd (closure_iterate example_openSMOKE example_system [Fin 0.02, Fin 0.005] 0))
         (snd (closure_iterate example_openSMOKE example_system [Fin 0.02, Fin 0.005] 1))
   \<and> tolerance_met
         (snd (closure_iterate example_openSMOKE example_system [Fin 0.02, Fin 0.005] 6))
         (snd (closure_iterate example_openSMOKE example_system [Fin 0.02, Fin 0.005] 7))"
proof -
  have c: "NumberOfSpecies example_openSMOKE \<le> length [Fin 0.02, Fin 0.005]"
    and d: "NumberOfSpecies example_openSMOKE \<le> length [Fin 7, Fin 7]"
    and m: "0 < sys_maxIterations example_system" "nat (sys_maxIterations example_system) = 10"
    by (simp_all add: example_defs)
  have len: "length example_scaled_queries = 7"
    by (simp add: example_scaled_queries_def)
  from closure_iterations[OF c d, of example_system 0 idle_maps]
  obtain out w' where run: "derivatives example_openSMOKE example_system 0 [Fin 0.02, Fin 0.005]
        [Fin 7, Fin 7] idle_maps = Inr (out, w')"
    and trace: "let qs = filter is_GetTemperature (drop (length (calls idle_maps)) (calls w'));
               n = length qs
           in n \<le> nat (sys_maxIterations example_system)
            \<and> (0 < sys_maxIterations example_system \<longrightarrow> 0 < n)
            \<and> (\<forall>k<n. qs ! k = closure_query example_openSMOKE example_system [Fin 0.02, Fin 0.005]
                   (closure_iterate example_openSMOKE example_system [Fin 0.02, Fin 0.005] k))
            \<and> (\<forall>k. Suc k < n \<longrightarrow>
                  \<not> tolerance_met (snd (closure_iterate example_openSMOKE example_system [Fin 0.02, Fin 0.005] k))
                      (snd (closure_iterate example_openSMOKE example_system [Fin 0.02, Fin 0.005] (Suc k))))
            \<and> (0 < n \<and> n < nat (sys_maxIterations example_system) \<longrightarrow>
                  tolerance_met (snd (closure_iterate example_openSMOKE example_system [Fin 0.02, Fin 0.005] (n - 1)))
                    (snd (closure_iterate example_openSMOKE example_system [Fin 0.02, Fin 0.005] n)))
            \<and> (thermo_T w', thermo_P w') = closure_iterate example_openSMOKE example_system [Fin 0.02, Fin 0.005] n
            \<and> (kinetics_T w', kinetics_P w') = closure_iterate example_openSMOKE example_system [Fin 0.02, Fin 0.005] n"
    by blast
  from run example_scaled_derivatives have w': "w' = example_after_scaled"
    by simp
  have qs: "filter is_GetTemperature (drop (length (calls idle_maps)) (calls w'))
      = example_scaled_queries"
    by (simp add: w' example_after_scaled_def idle_maps_def example_scaled_queries_def)
  note facts = trace[unfolded qs len Let_def m(2)]
  from facts have q1: "example_scaled_queries ! 1
             = closure_query example_openSMOKE example_system [Fin 0.02, Fin 0.005]
                 (closure_iterate example_openSMOKE example_system [Fin 0.02, Fin 0.005] 1)"
    by simp
  from facts have fin: "(thermo_T w', thermo_P w')
             = closure_iterate example_openSMOKE example_system [Fin 0.02, Fin 0.005] 7"
    by blast
  from facts have "Suc 0 < 7 \<longrightarrow> \<not> tolerance_met
         (snd (closure_iterate example_openSMOKE example_system [Fin 0.02, Fin 0.005] 0))
         (snd (closure_iterate example_openSMOKE example_system [Fin 0.02, Fin 0.005] (Suc 0)))"
    by blast
  then have n1: "\<not> tolerance_met
         (snd (closure_iterate example_openSMOKE example_system [Fin 0.02, Fin 0.005] 0))
         (snd (closure_iterate example_openSMOKE example_system [Fin 0.02, Fin 0.005] 1))"
    by simp
  from facts have "(0 :: nat) < 7 \<and> (7 :: nat) < 10 \<longrightarrow> tolerance_met
         (snd (closure_iterate example_openSMOKE example_system [Fin 0.02, Fin 0.005] (7 - 1)))
         (snd (closure_iterate example_openSMOKE example_system [Fin 0.02, Fin 0.005] 7))"
    by blast
  then have n7: "tolerance_met
         (snd (closure_iterate example_openSMOKE example_system [Fin 0.02, Fin 0.005] 6))
         (snd (closure_iterate example_openSMOKE example_system [Fin 0.02, Fin 0.005] 7))"
    by simp
  from run qs q1 fin have "\<exists>out w'. derivatives example_openSMOKE example_system 0 [Fin 0.02, Fin 0.005]
                   [Fin 7, Fin 7] idle_maps = Inr (out, w')
         \<and> filter is_GetTemperature (drop (length (calls idle_maps)) (calls w'))
             = example_scaled_queries
         \<and> example_scaled_queries ! 1
             = closure_query example_openSMOKE example_system [Fin 0.02, Fin 0.005]
                 (closure_iterate example_openSMOKE example_system [Fin 0.02, Fin 0.005] 1)
         \<and> (thermo_T w', thermo_P w')
             = closure_iterate example_openSMOKE example_system [Fin 0.02, Fin 0.005] 7"
    by blast
  with c d m(1) len n1 n7 show ?thesis by blast
qed

text \<open>
  Claim C4. The constructor allows ten iterations and no setter changes that. A call on
  fields of \<open>N\<close> entries returns whether or not the tolerance is met, after at most
  ten queries of the closure, and evaluates the kinetics at the temperature and pressure
  it set; when the tolerance is met in none of the ten iterations, these are the pair
  computed by the tenth.
\<close>

theorem closure_budget:
  assumes "sys_maxIterations sys = 10"
    and "NumberOfSpecies os \<le> length cc" "NumberOfSpecies os \<le> length dcdt"
  shows "sys_maxIterations (batchAdiabaticOdeSystem_new mem) = 10
     \<and> sys_maxIterations (setInitialTemperature T0 sys) = 10
     \<and> sys_maxIterations (setInitialPressure P0 sys) = 10
     \<and> sys_maxIterations (setInternalEnergy U sys) = 10
     \<and> (\<exists>out w'. derivatives os sys t cc dcdt w = Inr (out, w')
          \<and> length (filter is_GetTemperature (calls w'))
              \<le> length (filter is_GetTemperature (calls w)) + 10
          \<and> kinetics_T w' = thermo_T w' \<and> kinetics_P w' = thermo_P w'
          \<and> take (NumberOfSpecies os) out
              = map (FormationRate os (thermo_T w', thermo_P w') (kinetics_T w', kinetics_P w')
                       (clipped os cc)) [0..<NumberOfSpecies os]
          \<and> (never_met os sys cc 10 \<longrightarrow>
                length (filter is_GetTemperature (calls w'))
                  = length (filter is_GetTemperature (calls w)) + 10
              \<and> (thermo_T w', thermo_P w')
                  = (closure_step os sys cc ^^ 10) (sys_TInitial sys, sys_PInitial sys)))"
proof -
  let ?w' = "w\<lparr>thermo_T := closure_T os sys cc, thermo_P := closure_P os sys cc,
            kinetics_T := closure_T os sys cc, kinetics_P := closure_P os sys cc,
            kinetics_R := rates os sys cc,
            calls := calls w @ Thermo_MolecularWeight (moleFractions os cc) # closure_calls os sys cc
              @ set_calls (closure_T os sys cc) (closure_P os sys cc)
              @ [Kinetics_ReactionRates (clipped os cc), Kinetics_FormationRates]\<rparr>"
  let ?out = "rates os sys cc @ drop (NumberOfSpecies os) dcdt"
  have run: "derivatives os sys t cc dcdt w = Inr (?out, ?w')"
    using assms(2,3) by (rule derivatives_Inr)
  have gets: "filter is_GetTemperature (calls ?w')
      = filter is_GetTemperature (calls w) @ closure_calls os sys cc"
    by (simp add: filter_closure_calls set_calls_def)
  have budget: "length (filter is_GetTemperature (calls ?w'))
      \<le> length (filter is_GetTemperature (calls w)) + 10"
    using length_closure_calls[of os sys cc] assms(1) unfolding gets by simp
  have out: "take (NumberOfSpecies os) ?out
      = map (FormationRate os (thermo_T ?w', thermo_P ?w') (kinetics_T ?w', kinetics_P ?w')
               (clipped os cc)) [0..<NumberOfSpecies os]"
    by (simp add: rates_def)
  have exhausted: "length (filter is_GetTemperature (calls ?w'))
          = length (filter is_GetTemperature (calls w)) + 10
        \<and> (thermo_T ?w', thermo_P ?w')
          = (closure_step os sys cc ^^ 10) (sys_TInitial sys, sys_PInitial sys)"
    if "never_met os sys cc 10"
    using closure_never_met[of os sys cc] that assms(1) unfolding gets by simp
  have sets: "sys_maxIterations (batchAdiabaticOdeSystem_new mem) = 10
     \<and> sys_maxIterations (setInitialTemperature T0 sys) = 10
     \<and> sys_maxIterations (setInitialPressure P0 sys) = 10
     \<and> sys_maxIterations (setInternalEnergy U sys) = 10"
    using assms(1)
    by (simp add: batchAdiabaticOdeSystem_new_def setInitialTemperature_def
        setInitialPressure_def setInternalEnergy_def)
  have "\<exists>out w'. derivatives os sys t cc dcdt w = Inr (out, w')
          \<and> length (filter is_GetTemperature (calls w'))
              \<le> length (filter is_GetTemperature (calls w)) + 10
          \<and> kinetics_T w' = thermo_T w' \<and> kinetics_P w' = thermo_P w'
          \<and> take (NumberOfSpecies os) out
              = map (FormationRate os (thermo_T w', thermo_P w') (kinetics_T w', kinetics_P w')
                       (clipped os cc)) [0..<NumberOfSpecies os]
          \<and> (never_met os sys cc 10 \<longrightarrow>
                length (filter is_GetTemperature (calls w'))
                  = length (filter is_GetTemperature (calls w)) + 10
              \<and> (thermo_T w', thermo_P w')
                  = (closure_step os sys cc ^^ 10) (sys_TInitial sys, sys_PInitial sys))"
    apply (rule exI[of _ ?out], rule exI[of _ ?w'])
    using run budget out exhausted by simp
  with sets show ?thesis by blast
qed

theorem closure_budget_witness:
  "sys_maxIterations example_system = 10
   \<and> NumberOfSpecies example_openSMOKE \<le> length [0, 0 :: double]
   \<and> NumberOfSpecies example_openSMOKE \<le> length [Fin 7, Fin 7]
   \<and> never_met example_openSMOKE example_system [0, 0] 10
   \<and> derivatives example_openSMOKE example_system 0 [0, 0] [Fin 7, Fin 7] idle_maps
       = Inr ([NaN, NaN], example_after_zero_derivatives)
   \<and> length (filter is_GetTemperature (calls example_after_zero_derivatives)) = 10
   \<and> (thermo_T example_after_zero_derivatives, thermo_P example_after_zero_derivatives)
       = (closure_step example_openSMOKE example_system [0, 0] ^^ 10)
           (sys_TInitial example_system, sys_PInitial example_system)"
proof -
  have m: "sys_maxIterations example_system = 10"
    and c: "NumberOfSpecies example_openSMOKE \<le> length [0, 0 :: double]"
    and d: "NumberOfSpecies example_openSMOKE \<le> length [Fin 7, Fin 7]"
    by (simp_all add: example_defs)
  from closure_budget[OF m c d, of _ _ _ _ 0 idle_maps]
  obtain out w' where run: "derivatives example_openSMOKE example_system 0 [0, 0] [Fin 7, Fin 7]
        idle_maps = Inr (out, w')"
    and ex: "never_met example_openSMOKE example_system [0, 0] 10 \<longrightarrow>
                length (filter is_GetTemperature (calls w'))
                  = length (filter is_GetTemperature (calls idle_maps)) + 10
              \<and> (thermo_T w', thermo_P w')
                  = (closure_step example_openSMOKE example_system [0, 0] ^^ 10)
                      (sys_TInitial example_system, sys_PInitial example_system)"
    by blast
  from run have w': "w' = example_after_zero_derivatives"
    by (simp add: example_zero_derivatives)
  from ex example_zero_never_met
  have "length (filter is_GetTemperature (calls example_after_zero_derivatives)) = 10
     \<and> (thermo_T example_after_zero_derivatives, thermo_P example_after_zero_derivatives)
       = (closure_step example_openSMOKE example_system [0, 0] ^^ 10)
           (sys_TInitial example_system, sys_PInitial example_system)"
    by (simp add: w' idle_maps_def)
  with m c d example_zero_never_met example_zero_derivatives show ?thesis
    by blast
qed

text \<open>
  Claim C5. Whenever \<open>jacobian\<close> returns, the first \<open>N\<close> entries of \<open>dfdt\<close> are
  exactly zero (a field of \<open>N\<close> entries is the zero vector; entries beyond \<open>N\<close> are
  not touched), and entry \<open>(i, j)\<close> of \<open>dfdc\<close> is the derivative of the formation rate
  of species \<open>i\<close> with respect to species \<open>j\<close> that the kinetics map returns for the
  clipped concentrations at the state just set.
\<close>

theorem jacobian_outputs:
  assumes "jacobian os sys t cc dfdt dfdc w = Inr ((dfdt', dfdc'), w')"
  shows "take (NumberOfSpecies os) dfdt' = replicate (NumberOfSpecies os) 0
       \<and> drop (NumberOfSpecies os) dfdt' = drop (NumberOfSpecies os) dfdt
       \<and> (length dfdt = NumberOfSpecies os \<longrightarrow> dfdt' = replicate (NumberOfSpecies os) 0)
       \<and> (\<forall>i<NumberOfSpecies os. \<forall>j<NumberOfSpecies os.
             dfdc' ! i ! j = FormationRateDerivative os (thermo_T w', thermo_P w')
                               (kinetics_T w', kinetics_P w') (clipped os cc) i j)
       \<and> last (calls w') = Kinetics_DerivativesOfFormationRates (clipped os cc)"
proof -
  let ?N = "NumberOfSpecies os"
  have ok: "?N \<le> length cc \<and> ?N \<le> length dfdt \<and> rows_ok ?N dfdc"
    using assms jacobian_Inl[of os cc dfdt dfdc sys t w] by auto
  then have r: "jacobian os sys t cc dfdt dfdc w =
     Inr ((replicate ?N 0 @ drop ?N dfdt,
           map (\<lambda>i. rate_derivatives os sys cc ! i @ drop ?N (dfdc ! i)) [0..<?N] @ drop ?N dfdc),
          w\<lparr>thermo_T := closure_T os sys cc, thermo_P := closure_P os sys cc,
            kinetics_T := closure_T os sys cc, kinetics_P := closure_P os sys cc,
            calls := calls w @ Thermo_MolecularWeight (moleFractions os cc) # closure_calls os sys cc
              @ set_calls (closure_T os sys cc) (closure_P os sys cc)
              @ [Kinetics_DerivativesOfFormationRates (clipped os cc)]\<rparr>)"
    by (simp add: jacobian_Inr)
  have dfdt': "dfdt' = replicate ?N 0 @ drop ?N dfdt"
    and dfdc': "dfdc' = map (\<lambda>i. rate_derivatives os sys cc ! i @ drop ?N (dfdc ! i)) [0..<?N]
                  @ drop ?N dfdc"
    and w': "w' = w\<lparr>thermo_T := closure_T os sys cc, thermo_P := closure_P os sys cc,
            kinetics_T := closure_T os sys cc, kinetics_P := closure_P os sys cc,
            calls := calls w @ Thermo_MolecularWeight (moleFractions os cc) # closure_calls os sys cc
              @ set_calls (closure_T os sys cc) (closure_P os sys cc)
              @ [Kinetics_DerivativesOfFormationRates (clipped os cc)]\<rparr>"
    using assms r by simp_all
  have a: "take ?N dfdt' = replicate ?N 0" and b: "drop ?N dfdt' = drop ?N dfdt"
    using ok by (simp_all add: dfdt')
  have c: "length dfdt = ?N \<longrightarrow> dfdt' = replicate ?N 0"
    by (simp add: dfdt')
  have d: "\<forall>i<?N. \<forall>j<?N. dfdc' ! i ! j = FormationRateDerivative os (thermo_T w', thermo_P w')
                               (kinetics_T w', kinetics_P w') (clipped os cc) i j"
    by (simp add: dfdc' w' nth_append rate_derivatives_def)
  have e: "last (calls w') = Kinetics_DerivativesOfFormationRates (clipped os cc)"
    by (simp add: w' set_calls_def)
  from a b c d e show ?thesis by blast
qed

theorem jacobian_outputs_witness:
  "jacobian example_openSMOKE example_system 0 example_cc [Fin 7, Fin 7]
       [[Fin 7, Fin 7], [Fin 7, Fin 7]] idle_maps
     = Inr (([0, 0], [[Fin (- 1), 0], [Fin 1, 0]]), example_after_jacobian)
   \<and> length [Fin 7, Fin 7] = NumberOfSpecies example_openSMOKE
   \<and> [0, 0 :: double] = replicate (NumberOfSpecies example_openSMOKE) 0
   \<and> [[Fin (- 1), 0], [Fin 1, 0]]
       = map (\<lambda>i. map (FormationRateDerivative example_openSMOKE (Fin 1000, Fin 103925)
                          (Fin 1000, Fin 103925) example_cc i) [0..<2]) [0..<2]
   \<and> last (calls example_after_jacobian) = Kinetics_DerivativesOfFormationRates example_cc"
  using example_jacobian jacobian_outputs[OF example_jacobian]
  by (simp add: example_clipped)
     (simp add: example_openSMOKE_def example_after_jacobian_def example_cc_def
        eval_nat_numeral zero_double_def)

text \<open>
  Claim C6. Every entry of the raw concentrations is clipped at zero, a negative entry
  becoming 0, and the outputs depend on the raw input through the clipped values only:
  two inputs with the same clipped values give the same result, the raw input gives the
  result of its clipped copy, and in \<open>derivatives\<close> and in \<open>jacobian\<close> alike the
  thermodynamic map is asked for the molecular weight of the fractions of the clipped
  copy, the kinetics map receives the clipped copy, and the rates and their derivatives
  written to the output are the ones the kinetics map returns for it.
\<close>

theorem outputs_from_clipped_copy:
  "(\<forall>i<NumberOfSpecies os. clipped os cc ! i = (if cc ! i < 0 then 0 else cc ! i))
   \<and> (NumberOfSpecies os \<le> length cc \<and> NumberOfSpecies os \<le> length cc'
        \<and> clipped os cc = clipped os cc' \<longrightarrow>
          derivatives os sys t cc dcdt w = derivatives os sys t cc' dcdt w
        \<and> jacobian os sys t cc dfdt dfdc w = jacobian os sys t cc' dfdt dfdc w)
   \<and> (NumberOfSpecies os \<le> length cc \<longrightarrow>
          derivatives os sys t cc dcdt w = derivatives os sys t (clipped os cc) dcdt w
        \<and> jacobian os sys t cc dfdt dfdc w = jacobian os sys t (clipped os cc) dfdt dfdc w)
   \<and> (\<forall>out w'. derivatives os sys t cc dcdt w = Inr (out, w') \<longrightarrow>
          calls w' ! length (calls w)
            = Thermo_MolecularWeight
                (map (\<lambda>i. clipped os cc ! i / eigen_sum (clipped os cc)) [0..<NumberOfSpecies os])
        \<and> last (butlast (calls w')) = Kinetics_ReactionRates (clipped os cc)
        \<and> take (NumberOfSpecies os) out
            = map (FormationRate os (thermo_T w', thermo_P w') (kinetics_T w', kinetics_P w')
                     (clipped os cc)) [0..<NumberOfSpecies os])
   \<and> (\<forall>outj wj. jacobian os sys t cc dfdt dfdc w = Inr (outj, wj) \<longrightarrow>
          calls wj ! length (calls w)
            = Thermo_MolecularWeight
                (map (\<lambda>i. clipped os cc ! i / eigen_sum (clipped os cc)) [0..<NumberOfSpecies os])
        \<and> last (calls wj) = Kinetics_DerivativesOfFormationRates (clipped os cc)
        \<and> map (take (NumberOfSpecies os)) (take (NumberOfSpecies os) (snd outj))
            = map (\<lambda>i. map (FormationRateDerivative os (thermo_T wj, thermo_P wj)
                               (kinetics_T wj, kinetics_P wj) (clipped os cc) i)
                          [0..<NumberOfSpecies os])
                [0..<NumberOfSpecies os])"
proof (intro conjI allI impI)
  fix i assume "i < NumberOfSpecies os"
  then show "clipped os cc ! i = (if cc ! i < 0 then 0 else cc ! i)"
    by (rule clipped_nth)
next
  assume "NumberOfSpecies os \<le> length cc \<and> NumberOfSpecies os \<le> length cc'
        \<and> clipped os cc = clipped os cc'"
  then show "derivatives os sys t cc dcdt w = derivatives os sys t cc' dcdt w"
    and "jacobian os sys t cc dfdt dfdc w = jacobian os sys t cc' dfdt dfdc w"
    by (simp_all add: derivatives_cong jacobian_cong)
next
  assume n: "NumberOfSpecies os \<le> length cc"
  have c: "clipped os cc = clipped os (clipped os cc)"
    by (simp add: clipped_idem)
  from n c show "derivatives os sys t cc dcdt w = derivatives os sys t (clipped os cc) dcdt w"
    by (intro derivatives_cong) (simp_all add: length_clipped)
  from n c show "jacobian os sys t cc dfdt dfdc w = jacobian os sys t (clipped os cc) dfdt dfdc w"
    by (intro jacobian_cong) (simp_all add: length_clipped)
next
  fix out w' assume d: "derivatives os sys t cc dcdt w = Inr (out, w')"
  then have ok: "NumberOfSpecies os \<le> length cc \<and> NumberOfSpecies os \<le> length dcdt"
    using derivatives_Inl[of os cc dcdt sys t w] by auto
  with d have out: "out = rates os sys cc @ drop (NumberOfSpecies os) dcdt"
    and w': "w' = w\<lparr>thermo_T := closure_T os sys cc, thermo_P := closure_P os sys cc,
            kinetics_T := closure_T os sys cc, kinetics_P := closure_P os sys cc,
            kinetics_R := rates os sys cc,
            calls := calls w @ Thermo_MolecularWeight (moleFractions os cc) # closure_calls os sys cc
              @ set_calls (closure_T os sys cc) (closure_P os sys cc)
              @ [Kinetics_ReactionRates (clipped os cc), Kinetics_FormationRates]\<rparr>"
    by (simp_all add: derivatives_Inr)
  show "calls w' ! length (calls w)
            = Thermo_MolecularWeight
                (map (\<lambda>i. clipped os cc ! i / eigen_sum (clipped os cc)) [0..<NumberOfSpecies os])"
    by (simp add: w' nth_append moleFractions_def totalConcentration_def)
  show "last (butlast (calls w')) = Kinetics_ReactionRates (clipped os cc)"
    by (simp add: w' butlast_append set_calls_def)
  show "take (NumberOfSpecies os) out
            = map (FormationRate os (thermo_T w', thermo_P w') (kinetics_T w', kinetics_P w')
                     (clipped os cc)) [0..<NumberOfSpecies os]"
    by (simp add: out w' rates_def)
next
  fix outj wj assume j: "jacobian os sys t cc dfdt dfdc w = Inr (outj, wj)"
  let ?N = "NumberOfSpecies os"
  from j have ok: "?N \<le> length cc \<and> ?N \<le> length dfdt \<and> rows_ok ?N dfdc"
    using jacobian_Inl[of os cc dfdt dfdc sys t w] by auto
  with j have outj: "snd outj = map (\<lambda>i. rate_derivatives os sys cc ! i @ drop ?N (dfdc ! i)) [0..<?N]
                  @ drop ?N dfdc"
    and wj: "wj = w\<lparr>thermo_T := closure_T os sys cc, thermo_P := closure_P os sys cc,
            kinetics_T := closure_T os sys cc, kinetics_P := closure_P os sys cc,
            calls := calls w @ Thermo_MolecularWeight (moleFractions os cc) # closure_calls os sys cc
              @ set_calls (closure_T os sys cc) (closure_P os sys cc)
              @ [Kinetics_DerivativesOfFormationRates (clipped os cc)]\<rparr>"
    by (auto simp: jacobian_Inr)
  show "calls wj ! length (calls w)
            = Thermo_MolecularWeight
                (map (\<lambda>i. clipped os cc ! i / eigen_sum (clipped os cc)) [0..<?N])"
    by (simp add: wj nth_append moleFractions_def totalConcentration_def)
  show "last (calls wj) = Kinetics_DerivativesOfFormationRates (clipped os cc)"
    by (simp add: wj set_calls_def)
  have "map (take ?N) (take ?N (snd outj)) = rate_derivatives os sys cc"
    by (simp add: outj rate_derivatives_def list_eq_iff_nth_eq)
  then show "map (take ?N) (take ?N (snd outj))
            = map (\<lambda>i. map (FormationRateDerivative os (thermo_T wj, thermo_P wj)
                               (kinetics_T wj, kinetics_P wj) (clipped os cc) i) [0..<?N])
                [0..<?N]"
    by (simp add: wj rate_derivatives_def)
qed

theorem outputs_from_clipped_copy_witness:
  "NumberOfSpecies example_openSMOKE \<le> length [Fin 0.01, Fin (- 0.001)]
   \<and> NumberOfSpecies example_openSMOKE \<le> length [Fin 0.01, Fin (- 5)]
   \<and> clipped example_openSMOKE [Fin 0.01, Fin (- 0.001)] = [Fin 0.01, 0]
   \<and> clipped example_openSMOKE [Fin 0.01, Fin (- 5)] = [Fin 0.01, 0]
   \<and> derivatives example_openSMOKE example_system 0 [Fin 0.01, Fin (- 0.001)] [Fin 7, Fin 7] idle_maps
       = derivatives example_openSMOKE example_system 0 [Fin 0.01, Fin (- 5)] [Fin 7, Fin 7] idle_maps
   \<and> jacobian example_openSMOKE example_system 0 [Fin 0.01, Fin (- 0.001)] [Fin 7, Fin 7]
         [[Fin 7, Fin 7], [Fin 7, Fin 7]] idle_maps
       = jacobian example_openSMOKE example_system 0 [Fin 0.01, Fin (- 5)] [Fin 7, Fin 7]
         [[Fin 7, Fin 7], [Fin 7, Fin 7]] idle_maps
   \<and> derivatives example_openSMOKE example_system 0 [Fin 0.01, Fin (- 0.001)] [Fin 7, Fin 7] idle_maps
       = derivatives example_openSMOKE example_system 0 [Fin 0.01, 0] [Fin 7, Fin 7] idle_maps
   \<and> derivatives example_openSMOKE example_system 0 example_cc [Fin 7, Fin 7] idle_maps
       = Inr ([Fin (- 0.01), Fin 0.01], example_after_derivatives)
   \<and> last (butlast (calls example_after_derivatives)) = Kinetics_ReactionRates example_cc
   \<and> jacobian example_openSMOKE example_system 0 example_cc [Fin 7, Fin 7]
         [[Fin 7, Fin 7], [Fin 7, Fin 7]] idle_maps
       = Inr (([0, 0], [[Fin (- 1), 0], [Fin 1, 0]]), example_after_jacobian)
   \<and> last (calls example_after_jacobian) = Kinetics_DerivativesOfFormationRates example_cc
   \<and> (\<exists>out w'. derivatives example_openSMOKE example_system 0 [Fin 0.01, Fin (- 0.001)]
                   [Fin 7, Fin 7] idle_maps = Inr (out, w')
         \<and> last (butlast (calls w')) = Kinetics_ReactionRates [Fin 0.01, 0])
   \<and> (\<exists>outj wj. jacobian example_openSMOKE example_system 0 [Fin 0.01, Fin (- 0.001)]
                   [Fin 7, Fin 7] [[Fin 7, Fin 7], [Fin 7, Fin 7]] idle_maps = Inr (outj, wj)
         \<and> last (calls wj) = Kinetics_DerivativesOfFormationRates [Fin 0.01, 0])"
proof -
  have sizes: "NumberOfSpecies example_openSMOKE \<le> length [Fin 0.01, Fin (- 0.001)]"
      "NumberOfSpecies example_openSMOKE \<le> length [Fin 0.01, Fin (- 5)]"
    and clips: "clipped example_openSMOKE [Fin 0.01, Fin (- 0.001)] = [Fin 0.01, 0]"
      "clipped example_openSMOKE [Fin 0.01, Fin (- 5)] = [Fin 0.01, 0]"
    by (simp_all add: clipped_def example_openSMOKE_def std_max_def zero_double_def
        eval_nat_numeral)
  note inst = outputs_from_clipped_copy[of example_openSMOKE "[Fin 0.01, Fin (- 0.001)]"
      "[Fin 0.01, Fin (- 5)]" example_system 0 "[Fin 7, Fin 7]" idle_maps "[Fin 7, Fin 7]"
      "[[Fin 7, Fin 7], [Fin 7, Fin 7]]"]
  have h: "NumberOfSpecies example_openSMOKE \<le> length [Fin 0.01, Fin (- 0.001)]
      \<and> NumberOfSpecies example_openSMOKE \<le> length [Fin 0.01, Fin (- 5)]
      \<and> clipped example_openSMOKE [Fin 0.01, Fin (- 0.001)]
          = clipped example_openSMOKE [Fin 0.01, Fin (- 5)]"
    using sizes by (simp only: clips)
  from inst h
  have same: "derivatives example_openSMOKE example_system 0 [Fin 0.01, Fin (- 0.001)] [Fin 7, Fin 7] idle_maps
       = derivatives example_openSMOKE example_system 0 [Fin 0.01, Fin (- 5)] [Fin 7, Fin 7] idle_maps"
    "jacobian example_openSMOKE example_system 0 [Fin 0.01, Fin (- 0.001)] [Fin 7, Fin 7]
         [[Fin 7, Fin 7], [Fin 7, Fin 7]] idle_maps
       = jacobian example_openSMOKE example_system 0 [Fin 0.01, Fin (- 5)] [Fin 7, Fin 7]
         [[Fin 7, Fin 7], [Fin 7, Fin 7]] idle_maps"
    by blast+
  from inst sizes(1)
  have "derivatives example_openSMOKE example_system 0 [Fin 0.01, Fin (- 0.001)] [Fin 7, Fin 7] idle_maps
       = derivatives example_openSMOKE example_system 0
           (clipped example_openSMOKE [Fin 0.01, Fin (- 0.001)]) [Fin 7, Fin 7] idle_maps"
    by blast
  then have copy: "derivatives example_openSMOKE example_system 0 [Fin 0.01, Fin (- 0.001)] [Fin 7, Fin 7] idle_maps
       = derivatives example_openSMOKE example_system 0 [Fin 0.01, 0] [Fin 7, Fin 7] idle_maps"
    by (simp only: clips)
  from outputs_from_clipped_copy[of example_openSMOKE example_cc _ example_system 0
      "[Fin 7, Fin 7]" idle_maps] example_derivatives
  have kin: "last (butlast (calls example_after_derivatives)) = Kinetics_ReactionRates example_cc"
    by (simp add: example_clipped)
  from outputs_from_clipped_copy[of example_openSMOKE example_cc _ example_system 0 _
      idle_maps "[Fin 7, Fin 7]" "[[Fin 7, Fin 7], [Fin 7, Fin 7]]"] example_jacobian
  have kinj: "last (calls example_after_jacobian)
      = Kinetics_DerivativesOfFormationRates example_cc"
    by (simp add: example_clipped)
  have rows: "rows_ok (NumberOfSpecies example_openSMOKE) [[Fin 7, Fin 7], [Fin 7, Fin 7]]"
    and fields: "NumberOfSpecies example_openSMOKE \<le> length [Fin 7, Fin 7]"
    by (simp_all add: rows_ok_def example_openSMOKE_def)
  obtain out w' where rd: "derivatives example_openSMOKE example_system 0
      [Fin 0.01, Fin (- 0.001)] [Fin 7, Fin 7] idle_maps = Inr (out, w')"
    using derivatives_Inr[OF sizes(1) fields] by blast
  obtain outj wj where rj: "jacobian example_openSMOKE example_system 0
      [Fin 0.01, Fin (- 0.001)] [Fin 7, Fin 7] [[Fin 7, Fin 7], [Fin 7, Fin 7]] idle_maps
      = Inr (outj, wj)"
    using jacobian_Inr[OF sizes(1) fields rows] by blast
  from inst rd have "last (butlast (calls w'))
      = Kinetics_ReactionRates (clipped example_openSMOKE [Fin 0.01, Fin (- 0.001)])"
    by blast
  with rd have raw_d: "\<exists>out w'. derivatives example_openSMOKE example_system 0
        [Fin 0.01, Fin (- 0.001)] [Fin 7, Fin 7] idle_maps = Inr (out, w')
      \<and> last (butlast (calls w')) = Kinetics_ReactionRates [Fin 0.01, 0]"
    unfolding clips by blast
  from inst rj have "last (calls wj)
      = Kinetics_DerivativesOfFormationRates (clipped example_openSMOKE [Fin 0.01, Fin (- 0.001)])"
    by blast
  with rj have raw_j: "\<exists>outj wj. jacobian example_openSMOKE example_system 0
        [Fin 0.01, Fin (- 0.001)] [Fin 7, Fin 7] [[Fin 7, Fin 7], [Fin 7, Fin 7]] idle_maps
        = Inr (outj, wj)
      \<and> last (calls wj) = Kinetics_DerivativesOfFormationRates [Fin 0.01, 0]"
    unfolding clips by blast
  from sizes clips same copy example_derivatives kin example_jacobian kinj raw_d raw_j
  show ?thesis
    by blast
qed

text \<open>
  Claim C7. \<open>jacobian\<close> repeats the reconstruction and the closure of \<open>derivatives\<close>:
  the two loops are the same function, and on the same input both calls ask the
  thermodynamic map for the molecular weight of the same mole fractions, make the same
  closure queries, set the same \<open>T\<close> and \<open>P\<close> on both maps and hand the same clipped
  concentrations to the kinetics map.
\<close>

theorem jacobian_same_closure:
  assumes "derivatives os sys t cc dcdt w = Inr (out, wd)"
    and "jacobian os sys t cc dfdt dfdc w = Inr (outj, wj)"
  shows "(\<forall>cTot mw x n s. jacobian_loop os sys cTot mw x n s = derivatives_loop os sys cTot mw x n s)
       \<and> (let pre = Thermo_MolecularWeight (moleFractions os cc) # closure_calls os sys cc
                       @ set_calls (closure_T os sys cc) (closure_P os sys cc)
          in calls wd = calls w @ pre @ [Kinetics_ReactionRates (clipped os cc), Kinetics_FormationRates]
           \<and> calls wj = calls w @ pre @ [Kinetics_DerivativesOfFormationRates (clipped os cc)])
       \<and> thermo_T wj = thermo_T wd \<and> thermo_P wj = thermo_P wd
       \<and> kinetics_T wj = kinetics_T wd \<and> kinetics_P wj = kinetics_P wd"
proof -
  have okd: "NumberOfSpecies os \<le> length cc \<and> NumberOfSpecies os \<le> length dcdt"
    using assms(1) derivatives_Inl[of os cc dcdt sys t w] by auto
  have okj: "NumberOfSpecies os \<le> length cc \<and> NumberOfSpecies os \<le> length dfdt
      \<and> rows_ok (NumberOfSpecies os) dfdc"
    using assms(2) jacobian_Inl[of os cc dfdt dfdc sys t w] by auto
  have wd: "wd = w\<lparr>thermo_T := closure_T os sys cc, thermo_P := closure_P os sys cc,
            kinetics_T := closure_T os sys cc, kinetics_P := closure_P os sys cc,
            kinetics_R := rates os sys cc,
            calls := calls w @ Thermo_MolecularWeight (moleFractions os cc) # closure_calls os sys cc
              @ set_calls (closure_T os sys cc) (closure_P os sys cc)
              @ [Kinetics_ReactionRates (clipped os cc), Kinetics_FormationRates]\<rparr>"
    using assms(1) okd by (simp add: derivatives_Inr)
  have wj: "wj = w\<lparr>thermo_T := closure_T os sys cc, thermo_P := closure_P os sys cc,
            kinetics_T := closure_T os sys cc, kinetics_P := closure_P os sys cc,
            calls := calls w @ Thermo_MolecularWeight (moleFractions os cc) # closure_calls os sys cc
              @ set_calls (closure_T os sys cc) (closure_P os sys cc)
              @ [Kinetics_DerivativesOfFormationRates (clipped os cc)]\<rparr>"
    using assms(2) okj by (simp add: jacobian_Inr)
  show ?thesis
    by (simp add: wd wj jacobian_loop_eq Let_def)
qed

theorem jacobian_same_closure_witness:
  "derivatives example_openSMOKE example_system 0 example_cc [Fin 7, Fin 7] idle_maps
     = Inr ([Fin (- 0.01), Fin 0.01], example_after_derivatives)
   \<and> jacobian example_openSMOKE example_system 0 example_cc [Fin 7, Fin 7]
       [[Fin 7, Fin 7], [Fin 7, Fin 7]] idle_maps
     = Inr (([0, 0], [[Fin (- 1), 0], [Fin 1, 0]]), example_after_jacobian)
   \<and> butlast (butlast (calls example_after_derivatives)) = butlast (calls example_after_jacobian)
   \<and> thermo_T example_after_jacobian = thermo_T example_after_derivatives
   \<and> thermo_P example_after_jacobian = thermo_P example_after_derivatives
   \<and> kinetics_T example_after_jacobian = kinetics_T example_after_derivatives
   \<and> kinetics_P example_after_jacobian = kinetics_P example_after_derivatives"
proof -
  note same = jacobian_same_closure[OF example_derivatives example_jacobian]
  have prefix: "butlast (butlast (calls example_after_derivatives))
      = butlast (calls example_after_jacobian)"
    by (simp add: example_after_derivatives_def example_after_jacobian_def)
  from same have state: "thermo_T example_after_jacobian = thermo_T example_after_derivatives
      \<and> thermo_P example_after_jacobian = thermo_P example_after_derivatives
      \<and> kinetics_T example_after_jacobian = kinetics_T example_after_derivatives
      \<and> kinetics_P example_after_jacobian = kinetics_P example_after_derivatives"
    by blast
  from example_derivatives example_jacobian prefix state show ?thesis
    by blast
qed




text \<open>
  Claim C9. A second call of \<open>derivatives\<close> on the same input, made on the maps as the
  first call left them, returns the same output and leaves the same temperatures,
  pressures and rates on the maps; the output does not depend on the state of the maps
  at all.
\<close>

theorem derivatives_idempotent:
  assumes "derivatives os sys t cc dcdt w = Inr (out, w1)"
  shows "(\<exists>w2. derivatives os sys t cc dcdt w1 = Inr (out, w2)
            \<and> thermo_T w2 = thermo_T w1 \<and> thermo_P w2 = thermo_P w1
            \<and> kinetics_T w2 = kinetics_T w1 \<and> kinetics_P w2 = kinetics_P w1
            \<and> kinetics_R w2 = kinetics_R w1)
       \<and> (\<forall>w0. output_of (derivatives os sys t cc dcdt w0) = Some out)"
proof -
  have ok: "NumberOfSpecies os \<le> length cc \<and> NumberOfSpecies os \<le> length dcdt"
    using assms derivatives_Inl[of os cc dcdt sys t w] by auto
  have out: "out = rates os sys cc @ drop (NumberOfSpecies os) dcdt"
    and w1: "w1 = w\<lparr>thermo_T := closure_T os sys cc, thermo_P := closure_P os sys cc,
            kinetics_T := closure_T os sys cc, kinetics_P := closure_P os sys cc,
            kinetics_R := rates os sys cc,
            calls := calls w @ Thermo_MolecularWeight (moleFractions os cc) # closure_calls os sys cc
              @ set_calls (closure_T os sys cc) (closure_P os sys cc)
              @ [Kinetics_ReactionRates (clipped os cc), Kinetics_FormationRates]\<rparr>"
    using assms ok by (simp_all add: derivatives_Inr)
  have again: "\<And>w0. derivatives os sys t cc dcdt w0 =
     Inr (out, w0\<lparr>thermo_T := closure_T os sys cc, thermo_P := closure_P os sys cc,
            kinetics_T := closure_T os sys cc, kinetics_P := closure_P os sys cc,
            kinetics_R := rates os sys cc,
            calls := calls w0 @ Thermo_MolecularWeight (moleFractions os cc) # closure_calls os sys cc
              @ set_calls (closure_T os sys cc) (closure_P os sys cc)
              @ [Kinetics_ReactionRates (clipped os cc), Kinetics_FormationRates]\<rparr>)"
    using ok by (simp add: derivatives_Inr out)
  show ?thesis
    by (simp add: again output_of_def) (simp add: w1)
qed

theorem derivatives_idempotent_witness:
  "derivatives example_openSMOKE example_system 0 example_cc [Fin 7, Fin 7] idle_maps
     = Inr ([Fin (- 0.01), Fin 0.01], example_after_derivatives)
   \<and> (\<exists>w2. derivatives example_openSMOKE example_system 0 example_cc [Fin 7, Fin 7]
              example_after_derivatives = Inr ([Fin (- 0.01), Fin 0.01], w2)
           \<and> kinetics_R w2 = kinetics_R example_after_derivatives)
   \<and> output_of (derivatives example_openSMOKE example_system 0 example_cc [Fin 7, Fin 7]
        example_after_jacobian) = Some [Fin (- 0.01), Fin 0.01]"
  using example_derivatives derivatives_idempotent[OF example_derivatives]
  by auto

text \<open>
  Claim C10. Whenever \<open>derivatives\<close> or \<open>jacobian\<close> returns, of a system that allows at
  least one iteration (the constructor allows ten), the pressure and temperature set on
  the two maps satisfy \<open>P = cTot \<times> (R \<times> T)\<close> exactly, with the product taken as the
  source takes it: it is the last assignment of the loop.
\<close>

theorem ideal_gas_at_exit:
  assumes "0 < sys_maxIterations sys"
  shows "(derivatives os sys t cc dcdt w = Inr (out, wd) \<longrightarrow>
            thermo_P wd = totalConcentration os cc * (R_J_kmol os * thermo_T wd)
          \<and> kinetics_P wd = totalConcentration os cc * (R_J_kmol os * kinetics_T wd)
          \<and> kinetics_T wd = thermo_T wd)
       \<and> (jacobian os sys t cc dfdt dfdc w = Inr (outj, wj) \<longrightarrow>
            thermo_P wj = totalConcentration os cc * (R_J_kmol os * thermo_T wj)
          \<and> kinetics_P wj = totalConcentration os cc * (R_J_kmol os * kinetics_T wj)
          \<and> kinetics_T wj = thermo_T wj)"
proof (intro conjI impI)
  assume d: "derivatives os sys t cc dcdt w = Inr (out, wd)"
  then have ok: "NumberOfSpecies os \<le> length cc \<and> NumberOfSpecies os \<le> length dcdt"
    using derivatives_Inl[of os cc dcdt sys t w] by auto
  with d have T: "thermo_T wd = closure_T os sys cc" "kinetics_T wd = closure_T os sys cc"
    and P: "thermo_P wd = closure_P os sys cc" "kinetics_P wd = closure_P os sys cc"
    by (auto simp: derivatives_Inr)
  show "thermo_P wd = totalConcentration os cc * (R_J_kmol os * thermo_T wd)"
    and "kinetics_P wd = totalConcentration os cc * (R_J_kmol os * kinetics_T wd)"
    and "kinetics_T wd = thermo_T wd"
    using assms by (simp_all add: T P closure_gas_law)
next
  assume j: "jacobian os sys t cc dfdt dfdc w = Inr (outj, wj)"
  then have ok: "NumberOfSpecies os \<le> length cc \<and> NumberOfSpecies os \<le> length dfdt
      \<and> rows_ok (NumberOfSpecies os) dfdc"
    using jacobian_Inl[of os cc dfdt dfdc sys t w] by auto
  with j have T: "thermo_T wj = closure_T os sys cc" "kinetics_T wj = closure_T os sys cc"
    and P: "thermo_P wj = closure_P os sys cc" "kinetics_P wj = closure_P os sys cc"
    by (auto simp: jacobian_Inr)
  show "thermo_P wj = totalConcentration os cc * (R_J_kmol os * thermo_T wj)"
    and "kinetics_P wj = totalConcentration os cc * (R_J_kmol os * kinetics_T wj)"
    and "kinetics_T wj = thermo_T wj"
    using assms by (simp_all add: T P closure_gas_law)
qed

theorem ideal_gas_at_exit_witness:
  "0 < sys_maxIterations example_system
   \<and> derivatives example_openSMOKE example_system 0 example_cc [Fin 7, Fin 7] idle_maps
     = Inr ([Fin (- 0.01), Fin 0.01], example_after_derivatives)
   \<and> thermo_P example_after_derivatives
       = totalConcentration example_openSMOKE example_cc
           * (R_J_kmol example_openSMOKE * thermo_T example_after_derivatives)
   \<and> jacobian example_openSMOKE example_system 0 example_cc [Fin 7, Fin 7]
       [[Fin 7, Fin 7], [Fin 7, Fin 7]] idle_maps
     = Inr (([0, 0], [[Fin (- 1), 0], [Fin 1, 0]]), example_after_jacobian)
   \<and> kinetics_P example_after_jacobian
       = totalConcentration example_openSMOKE example_cc
           * (R_J_kmol example_openSMOKE * kinetics_T example_after_jacobian)
   \<and> thermo_P example_after_derivatives = Fin 103925
   \<and> thermo_T example_after_derivatives = Fin 1000"
proof -
  have pos: "0 < sys_maxIterations example_system"
    by (simp add: example_defs)
  from ideal_gas_at_exit[OF pos, of example_openSMOKE 0 example_cc "[Fin 7, Fin 7]" idle_maps
      "[Fin (- 0.01), Fin 0.01]" example_after_derivatives "[Fin 7, Fin 7]"
      "[[Fin 7, Fin 7], [Fin 7, Fin 7]]" "([0, 0], [[Fin (- 1), 0], [Fin 1, 0]])"
      example_after_jacobian]
  show ?thesis
    using pos example_derivatives example_jacobian
    by (simp add: example_after_derivatives_def)
qed

end
